theory Spec2Isabelle
  imports Complex_Main "HOL-Library.Product_Lexorder"
begin

unbundle bit_operations_syntax

section \<open>A shallow embedding of pysift.py\<close>

text \<open>
  The module \<^verbatim>\<open>src/sift/pysift.py\<close> computes SIFT keypoints and descriptors.
  Every function of the module is translated below, in the order of the source.
  Conventions of the embedding:
  \<^item> a Python exception is a value \<open>Inl e\<close> of the result type \<open>py_error + 'a\<close>;
  \<^item> \<^verbatim>\<open>float32\<close>/\<^verbatim>\<open>float64\<close> numbers are real numbers (rounding error, NaN and
    infinities are outside the model); Python integers are \<open>int\<close>;
  \<^item> a two-dimensional numpy array is a list of rows; indexing and slicing follow
    numpy (a negative index counts from the end, an index out of range raises
    \<^verbatim>\<open>IndexError\<close>, a slice is clipped);
  \<^item> the OpenCV and LAPACK primitives the module imports (\<^verbatim>\<open>resize\<close>,
    \<^verbatim>\<open>GaussianBlur\<close>, \<^verbatim>\<open>lstsq\<close>) are fields of a record of collaborators that every
    function using them takes as its first argument.
\<close>

subsection \<open>Python values, errors and name resolution\<close>

datatype py_error =
    NameError
  | UnboundLocalError
  | IndexError
  | ValueError
  | TypeError
  | ZeroDivisionError
  | OverflowError
  | CvError

definition bind_err :: "py_error + 'a \<Rightarrow> ('a \<Rightarrow> py_error + 'b) \<Rightarrow> py_error + 'b" where
  "bind_err x f = (case x of Inl e \<Rightarrow> Inl e | Inr v \<Rightarrow> f v)"

text \<open>A \<^verbatim>\<open>for\<close> loop whose body may raise: the first exception ends the loop.\<close>

fun fold_err :: "('a \<Rightarrow> 'b \<Rightarrow> py_error + 'b) \<Rightarrow> 'a list \<Rightarrow> 'b \<Rightarrow> py_error + 'b" where
  "fold_err f [] acc = Inr acc"
| "fold_err f (x # xs) acc = (case f x acc of Inl e \<Rightarrow> Inl e | Inr acc' \<Rightarrow> fold_err f xs acc')"

fun map_err :: "('a \<Rightarrow> py_error + 'b) \<Rightarrow> 'a list \<Rightarrow> py_error + 'b list" where
  "map_err f [] = Inr []"
| "map_err f (x # xs) =
     (case f x of Inl e \<Rightarrow> Inl e
      | Inr y \<Rightarrow> (case map_err f xs of Inl e \<Rightarrow> Inl e | Inr ys \<Rightarrow> Inr (y # ys)))"

text \<open>
  The names bound at module level: the imports of lines 9 to 14, the two globals of
  lines 20 and 21 and the functions the module defines. A name a function body reads
  without assigning it is looked up here (and then among the builtins).
\<close>

definition module_names :: "string list" where
  "module_names =
    [''all'', ''any'', ''array'', ''arctan2'', ''cos'', ''sin'', ''exp'', ''dot'', ''log'',
     ''logical_and'', ''roll'', ''sqrt'', ''stack'', ''trace'', ''unravel_index'', ''pi'',
     ''deg2rad'', ''rad2deg'', ''where'', ''zeros'', ''floor'', ''full'', ''nan'', ''isnan'',
     ''round'', ''float32'',
     ''det'', ''lstsq'', ''norm'',
     ''resize'', ''GaussianBlur'', ''subtract'', ''KeyPoint'', ''INTER_LINEAR'', ''INTER_NEAREST'',
     ''cmp_to_key'', ''logging'',
     ''logger'', ''float_tolerance'',
     ''computeKeypointsAndDescriptors'', ''generateBaseImage'', ''computeNumberOfOctaves'',
     ''generateGaussianKernels'', ''generateGaussianImages'', ''generateDoGImages'',
     ''findScaleSpaceExtrema'', ''isPixelAnExtremum'', ''localizeExtremumViaQuadraticFit'',
     ''computeGradientAtCenterPixel'', ''computeHessianAtCenterPixel'',
     ''computeKeypointsWithOrientations'', ''compareKeypoints'', ''removeDuplicateKeypoints'',
     ''convertKeypointsToInputImageSize'', ''unpackOctave'', ''generateDescriptors'']"

definition builtin_names :: "string list" where
  "builtin_names =
    [''abs'', ''enumerate'', ''float'', ''int'', ''len'', ''max'', ''min'', ''range'',
     ''tuple'', ''zip'']"

definition float_tolerance :: real where
  "float_tolerance = 1 / 10 ^ 7"

text \<open>
  Reading a global name where a number is needed: \<^verbatim>\<open>float_tolerance\<close> is the only
  numeric global; any other bound name is a function, a module or a constant of OpenCV,
  on which arithmetic raises \<^verbatim>\<open>TypeError\<close>; an unbound name raises \<^verbatim>\<open>NameError\<close>.
\<close>

definition global_number :: "string \<Rightarrow> py_error + real" where
  "global_number name =
     (if name = ''float_tolerance'' then Inr float_tolerance
      else if name = ''pi'' then Inr pi
      else if name \<in> set module_names \<or> name \<in> set builtin_names then Inl TypeError
      else Inl NameError)"

text \<open>Reading a global name as a module whose attribute is then called.\<close>

definition global_module :: "string \<Rightarrow> py_error + unit" where
  "global_module name =
     (if name = ''logging'' then Inr ()
      else if name \<in> set module_names \<or> name \<in> set builtin_names then Inl TypeError
      else Inl NameError)"

subsection \<open>Numbers\<close>

text \<open>numpy's \<^verbatim>\<open>round\<close> rounds a half to the even neighbour.\<close>

definition np_round :: "real \<Rightarrow> int" where
  "np_round x =
     (let f = \<lfloor>x\<rfloor>; d = x - of_int f
      in if d < 1 / 2 then f else if 1 / 2 < d then f + 1 else if even f then f else f + 1)"

text \<open>Python's \<^verbatim>\<open>%\<close> on floats with a positive modulus: the result lies in \<open>[0, m)\<close>.\<close>

definition float_mod :: "real \<Rightarrow> real \<Rightarrow> real" where
  "float_mod x m = x - m * of_int \<lfloor>x / m\<rfloor>"

definition arctan2 :: "real \<Rightarrow> real \<Rightarrow> real" where
  "arctan2 y x =
     (if 0 < x then arctan (y / x)
      else if x < 0 \<and> 0 \<le> y then arctan (y / x) + pi
      else if x < 0 \<and> y < 0 then arctan (y / x) - pi
      else if 0 < y then pi / 2
      else if y < 0 then - (pi / 2)
      else 0)"

definition rad2deg :: "real \<Rightarrow> real" where
  "rad2deg r = r * 180 / pi"

definition deg2rad :: "real \<Rightarrow> real" where
  "deg2rad d = d * pi / 180"

definition norm2 :: "real list \<Rightarrow> real" where
  "norm2 v = sqrt (sum_list (map (\<lambda>x. x * x) v))"

subsection \<open>Arrays\<close>

type_synonym image = "real list list"

definition shape :: "image \<Rightarrow> nat \<times> nat" where
  "shape img = (length img, (case img of [] \<Rightarrow> 0 | row # _ \<Rightarrow> length row))"

text \<open>An index into an axis of length \<open>n\<close>, as numpy and Python lists resolve it.\<close>

definition py_index :: "nat \<Rightarrow> int \<Rightarrow> py_error + nat" where
  "py_index n i =
     (let j = (if i < 0 then int n + i else i)
      in if 0 \<le> j \<and> j < int n then Inr (nat j) else Inl IndexError)"

definition py_get :: "'a list \<Rightarrow> int \<Rightarrow> py_error + 'a" where
  "py_get xs i = (case py_index (length xs) i of Inl e \<Rightarrow> Inl e | Inr k \<Rightarrow> Inr (xs ! k))"

definition get2 :: "'a list list \<Rightarrow> int \<Rightarrow> int \<Rightarrow> py_error + 'a" where
  "get2 a r c = (case py_get a r of Inl e \<Rightarrow> Inl e | Inr row \<Rightarrow> py_get row c)"

definition get3 :: "'a list list list \<Rightarrow> int \<Rightarrow> int \<Rightarrow> int \<Rightarrow> py_error + 'a" where
  "get3 a s r c = (case py_get a s of Inl e \<Rightarrow> Inl e | Inr plane \<Rightarrow> get2 plane r c)"

text \<open>A slice bound, clipped to the axis as Python does.\<close>

definition slice_bound :: "nat \<Rightarrow> int \<Rightarrow> nat" where
  "slice_bound n i = (if i < 0 then nat (max (int n + i) 0) else min (nat i) n)"

definition py_slice :: "'a list \<Rightarrow> int \<Rightarrow> int \<Rightarrow> 'a list" where
  "py_slice xs start stop =
     (let s = slice_bound (length xs) start; e = slice_bound (length xs) stop
      in take (e - s) (drop s xs))"

text \<open>\<^verbatim>\<open>img[r0:r1, c0:c1]\<close>\<close>

definition slice2 :: "'a list list \<Rightarrow> int \<Rightarrow> int \<Rightarrow> int \<Rightarrow> int \<Rightarrow> 'a list list" where
  "slice2 img r0 r1 c0 c1 = map (\<lambda>row. py_slice row c0 c1) (py_slice img r0 r1)"

text \<open>\<^verbatim>\<open>range(a, b)\<close>\<close>

definition py_range :: "int \<Rightarrow> int \<Rightarrow> int list" where
  "py_range a b = [a..b - 1]"

text \<open>\<^verbatim>\<open>enumerate\<close>\<close>

definition enumerate_py :: "'a list \<Rightarrow> (int \<times> 'a) list" where
  "enumerate_py xs = zip (map int [0..<length xs]) xs"

subsection \<open>The collaborators: OpenCV's resize and blur, numpy's least squares\<close>

record collaborators =
  resize_by :: "image \<Rightarrow> real \<Rightarrow> real \<Rightarrow> py_error + image"
  resize_to :: "image \<Rightarrow> int \<times> int \<Rightarrow> py_error + image"
  GaussianBlur :: "image \<Rightarrow> real \<Rightarrow> py_error + image"
  lstsq :: "real list list \<Rightarrow> real list \<Rightarrow> py_error + real list"

text \<open>
  \<open>resize_by img fx fy\<close> is \<^verbatim>\<open>resize(img, (0, 0), fx=fx, fy=fy, interpolation=INTER_LINEAR)\<close>,
  \<open>resize_to img (w, h)\<close> is \<^verbatim>\<open>resize(img, (w, h), interpolation=INTER_NEAREST)\<close>,
  \<open>GaussianBlur img s\<close> is \<^verbatim>\<open>GaussianBlur(img, (0, 0), sigmaX=s, sigmaY=s)\<close> and
  \<open>lstsq a b\<close> is \<^verbatim>\<open>lstsq(a, b, rcond=None)[0]\<close>.
\<close>

subsection \<open>Keypoints\<close>

text \<open>The fields of \<^verbatim>\<open>cv2.KeyPoint\<close> and the values \<^verbatim>\<open>KeyPoint()\<close> gives them.\<close>

record keypoint =
  pt :: "real \<times> real"
  size_kp :: real
  angle :: real
  response :: real
  octave :: int
  class_id :: int

definition KeyPoint :: keypoint where
  "KeyPoint = \<lparr>pt = (0, 0), size_kp = 0, angle = - 1, response = 0, octave = 0, class_id = - 1\<rparr>"

subsection \<open>Image pyramid\<close>

text \<open>Lines 48 to 65.\<close>

definition generateBaseImage :: "collaborators \<Rightarrow> image \<Rightarrow> real \<Rightarrow> real \<Rightarrow> py_error + image" where
  "generateBaseImage cv img sigma assumed_blur =
     (case resize_by cv img 2 2 of
        Inl e \<Rightarrow> Inl e
      | Inr img' \<Rightarrow>
          (let sigma_diff = sqrt (max (sigma ^ 2 - (2 * assumed_blur) ^ 2) (1 / 100))
           in GaussianBlur cv img' sigma_diff))"

text \<open>
  Line 73: \<^verbatim>\<open>int(round(log(min(image_shape)) / log(2) - 1))\<close>, where \<^verbatim>\<open>round\<close> is
  numpy's. For a side of length 0 numpy's logarithm is minus infinity, which \<^verbatim>\<open>int\<close>
  refuses with \<^verbatim>\<open>OverflowError\<close>.
\<close>

definition computeNumberOfOctaves :: "nat \<times> nat \<Rightarrow> py_error + int" where
  "computeNumberOfOctaves image_shape =
     (let m = min (fst image_shape) (snd image_shape)
      in if m = 0 then Inl OverflowError
         else Inr (np_round (ln (real m) / ln 2 - 1)))"

text \<open>
  Lines 76 to 97. \<^verbatim>\<open>zeros(n)\<close> raises \<^verbatim>\<open>ValueError\<close> for a negative \<open>n\<close>, and
  assigning element 0 of an empty array raises \<^verbatim>\<open>IndexError\<close>. (For a negative
  \<open>num_intervals\<close> numpy's square root gives NaN, which is outside the model.)
\<close>

definition generateGaussianKernels :: "real \<Rightarrow> int \<Rightarrow> py_error + real list" where
  "generateGaussianKernels sigma num_intervals =
     (let num_images_per_octave = num_intervals + 3
      in if num_intervals = 0 then Inl ZeroDivisionError
         else let k = 2 powr (1 / of_int num_intervals)
           in if num_images_per_octave < 0 then Inl ValueError
              else if num_images_per_octave = 0 then Inl IndexError
              else Inr (sigma #
                     map (\<lambda>image_index.
                            let sigma_previous = (k powr of_int (image_index - 1)) * sigma;
                                sigma_total = k * sigma_previous
                            in sqrt (sigma_total ^ 2 - sigma_previous ^ 2))
                         (py_range 1 num_images_per_octave)))"

text \<open>
  Lines 107 to 121, one pass of the outer loop: blur the octave's first image with each
  kernel but the first, keep the octave, and halve its third image from the end (with
  integer halves of its sides) for the next pass.
\<close>

definition gaussian_octave ::
  "collaborators \<Rightarrow> real list \<Rightarrow> image \<Rightarrow> py_error + (image list \<times> image)" where
  "gaussian_octave cv gaussian_kernels img0 =
     (case fold_err
             (\<lambda>gaussian_kernel (img, gaussian_images_in_octave).
                 case GaussianBlur cv img gaussian_kernel of
                   Inl e \<Rightarrow> Inl e
                 | Inr img' \<Rightarrow> Inr (img', gaussian_images_in_octave @ [img']))
             (drop 1 gaussian_kernels) (img0, [img0]) of
        Inl e \<Rightarrow> Inl e
      | Inr (_, gaussian_images_in_octave) \<Rightarrow>
          (case py_get gaussian_images_in_octave (- 3) of
             Inl e \<Rightarrow> Inl e
           | Inr octave_base \<Rightarrow>
               (case resize_to cv octave_base
                       (int (snd (shape octave_base)) div 2, int (fst (shape octave_base)) div 2) of
                  Inl e \<Rightarrow> Inl e
                | Inr img' \<Rightarrow> Inr (gaussian_images_in_octave, img'))))"

text \<open>Lines 100 to 122. \<^verbatim>\<open>range(num_octaves)\<close> is empty for a count below 1.\<close>

definition generateGaussianImages ::
  "collaborators \<Rightarrow> image \<Rightarrow> int \<Rightarrow> real list \<Rightarrow> py_error + image list list" where
  "generateGaussianImages cv img0 num_octaves gaussian_kernels =
     (case fold_err
             (\<lambda>octave_index (img, gaussian_images).
                 case gaussian_octave cv gaussian_kernels img of
                   Inl e \<Rightarrow> Inl e
                 | Inr (gaussian_images_in_octave, img') \<Rightarrow>
                     Inr (img', gaussian_images @ [gaussian_images_in_octave]))
             (py_range 0 num_octaves) (img0, []) of
        Inl e \<Rightarrow> Inl e
      | Inr (_, gaussian_images) \<Rightarrow> Inr gaussian_images)"

text \<open>
  OpenCV's \<^verbatim>\<open>subtract\<close> on two float images of one size is the pixelwise difference;
  it refuses images of different sizes.
\<close>

definition subtract :: "image \<Rightarrow> image \<Rightarrow> py_error + image" where
  "subtract a b =
     (if map length a = map length b
      then Inr (map (\<lambda>(ra, rb). map (\<lambda>(x, y). x - y) (zip ra rb)) (zip a b))
      else Inl CvError)"

text \<open>Lines 125 to 141.\<close>

definition generateDoGImages :: "image list list \<Rightarrow> py_error + image list list" where
  "generateDoGImages gaussian_images =
     map_err
       (\<lambda>gaussian_images_in_octave.
           map_err (\<lambda>(first_image, second_image). subtract second_image first_image)
             (zip gaussian_images_in_octave (drop 1 gaussian_images_in_octave)))
       gaussian_images"

subsection \<open>Scale-space extrema\<close>

definition all_pixels :: "(real \<Rightarrow> bool) \<Rightarrow> image \<Rightarrow> bool" where
  "all_pixels P img = list_all (list_all P) img"

text \<open>Lines 186 to 199.\<close>

definition isPixelAnExtremum :: "image \<Rightarrow> image \<Rightarrow> image \<Rightarrow> real \<Rightarrow> py_error + bool" where
  "isPixelAnExtremum first_subimage second_subimage third_subimage threshold =
     (case get2 second_subimage 1 1 of
        Inl e \<Rightarrow> Inl e
      | Inr center_pixel_value \<Rightarrow>
          Inr (if \<bar>center_pixel_value\<bar> > threshold then
                 (if center_pixel_value > 0 then
                    all_pixels (\<lambda>v. center_pixel_value \<ge> v) first_subimage \<and>
                    all_pixels (\<lambda>v. center_pixel_value \<ge> v) third_subimage \<and>
                    all_pixels (\<lambda>v. center_pixel_value \<ge> v) second_subimage
                  else if center_pixel_value < 0 then
                    all_pixels (\<lambda>v. center_pixel_value \<le> v) first_subimage \<and>
                    all_pixels (\<lambda>v. center_pixel_value \<le> v) third_subimage \<and>
                    all_pixels (\<lambda>v. center_pixel_value \<le> v) second_subimage
                  else False)
               else False))"

text \<open>Lines 290 to 299.\<close>

definition computeGradientAtCenterPixel :: "real list list list \<Rightarrow> py_error + real list" where
  "computeGradientAtCenterPixel pixel_array =
     bind_err (get3 pixel_array 1 1 2) (\<lambda>p112.
     bind_err (get3 pixel_array 1 1 0) (\<lambda>p110.
     let dx = 0.5 * (p112 - p110) in
     bind_err (get3 pixel_array 1 2 1) (\<lambda>p121.
     bind_err (get3 pixel_array 1 0 1) (\<lambda>p101.
     let dy = 0.5 * (p121 - p101) in
     bind_err (get3 pixel_array 2 1 1) (\<lambda>p211.
     bind_err (get3 pixel_array 0 1 1) (\<lambda>p011.
     let ds = 0.5 * (p211 - p011) in
     Inr [dx, dy, ds]))))))"

text \<open>
  Lines 302 to 321. The assignment of \<^verbatim>\<open>center_pixel_value\<close> at line 312 is commented
  out, so the name is not local to the function: lines 313 to 315 read it as a global.
\<close>

definition computeHessianAtCenterPixel :: "real list list list \<Rightarrow> py_error + real list list" where
  "computeHessianAtCenterPixel pixel_array =
     bind_err (get3 pixel_array 1 1 2) (\<lambda>p112.
     bind_err (get3 pixel_array 1 1 0) (\<lambda>p110.
     bind_err (global_number ''center_pixel_value'') (\<lambda>center_pixel_value.
     let dxx = p112 + p110 - 2 * center_pixel_value in
     bind_err (get3 pixel_array 1 2 1) (\<lambda>p121.
     bind_err (get3 pixel_array 1 0 1) (\<lambda>p101.
     bind_err (global_number ''center_pixel_value'') (\<lambda>center_pixel_value.
     let dyy = p121 + p101 - 2 * center_pixel_value in
     bind_err (get3 pixel_array 2 1 1) (\<lambda>p211.
     bind_err (get3 pixel_array 0 1 1) (\<lambda>p011.
     bind_err (global_number ''center_pixel_value'') (\<lambda>center_pixel_value.
     let dss = p211 + p011 - 2 * center_pixel_value in
     bind_err (get3 pixel_array 1 2 2) (\<lambda>p122.
     bind_err (get3 pixel_array 1 2 0) (\<lambda>p120.
     bind_err (get3 pixel_array 1 0 2) (\<lambda>p102.
     bind_err (get3 pixel_array 1 0 0) (\<lambda>p100.
     let dxy = 0.25 * (p122 - p120 - p102 + p100) in
     bind_err (get3 pixel_array 2 1 2) (\<lambda>p212.
     bind_err (get3 pixel_array 2 1 0) (\<lambda>p210.
     bind_err (get3 pixel_array 0 1 2) (\<lambda>p012.
     bind_err (get3 pixel_array 0 1 0) (\<lambda>p010.
     let dxs = 0.25 * (p212 - p210 - p012 + p010) in
     bind_err (get3 pixel_array 2 2 1) (\<lambda>p221.
     bind_err (get3 pixel_array 2 0 1) (\<lambda>p201.
     bind_err (get3 pixel_array 0 2 1) (\<lambda>p021.
     bind_err (get3 pixel_array 0 0 1) (\<lambda>p001.
     let dys = 0.25 * (p221 - p201 - p021 + p001) in
     Inr [[dxx, dxy, dxs],
          [dxy, dyy, dys],
          [dxs, dys, dss]])))))))))))))))))))))"

text \<open>
  Lines 217 to 220: the three images around \<open>image_index\<close> and the cube of their 3x3
  windows at \<open>(i, j)\<close>, divided by 255. Unpacking a slice that does not hold three images
  raises \<^verbatim>\<open>ValueError\<close>, and so does stacking windows of different shapes.
\<close>

definition pixel_cube_at :: "image list \<Rightarrow> int \<Rightarrow> int \<Rightarrow> int \<Rightarrow> py_error + real list list list" where
  "pixel_cube_at dog_images_in_octave i j image_index =
     (case py_slice dog_images_in_octave (image_index - 1) (image_index + 2) of
        [first_image, second_image, third_image] \<Rightarrow>
          (let w1 = slice2 first_image (i - 1) (i + 2) (j - 1) (j + 2);
               w2 = slice2 second_image (i - 1) (i + 2) (j - 1) (j + 2);
               w3 = slice2 third_image (i - 1) (i + 2) (j - 1) (j + 2)
           in if map length w1 = map length w2 \<and> map length w2 = map length w3
              then Inr (map (map (map (\<lambda>v. v / 255))) [w1, w2, w3])
              else Inl ValueError)
      | _ \<Rightarrow> Inl ValueError)"

text \<open>numpy's \<^verbatim>\<open>dot\<close> of two vectors, \<^verbatim>\<open>trace\<close> and \<^verbatim>\<open>det\<close> of a 2x2 matrix.\<close>

definition dot :: "real list \<Rightarrow> real list \<Rightarrow> py_error + real" where
  "dot u v = (if length u = length v then Inr (sum_list (map (\<lambda>(x, y). x * y) (zip u v)))
              else Inl ValueError)"

definition trace2 :: "real list list \<Rightarrow> py_error + real" where
  "trace2 m = (case m of [[a, b], [c, d]] \<Rightarrow> Inr (a + d) | _ \<Rightarrow> Inl ValueError)"

definition det2 :: "real list list \<Rightarrow> py_error + real" where
  "det2 m = (case m of [[a, b], [c, d]] \<Rightarrow> Inr (a * d - b * c) | _ \<Rightarrow> Inl ValueError)"

text \<open>\<^verbatim>\<open>2 ** n\<close> for an integer \<open>n\<close>.\<close>

definition pow2 :: "int \<Rightarrow> real" where
  "pow2 n = (if 0 \<le> n then 2 ^ nat n else 1 / 2 ^ nat (- n))"

text \<open>The local variables of \<^verbatim>\<open>localizeExtremumViaQuadraticFit\<close> when its loop is left.\<close>

record fit_state =
  fit_i :: int
  fit_j :: int
  fit_image_index :: int
  extremum_is_outside_image :: bool
  attempt_index :: int
  pixel_cube :: "real list list list"
  gradient :: "real list"
  hessian :: "real list list"
  extremum_update :: "real list"

text \<open>
  Lines 215 to 245, the loop over \<^verbatim>\<open>range(num_attempts_until_convergence)\<close>. The list
  holds the attempt indices still to run; the last argument is the state the previous
  pass left (\<open>None\<close> before the first pass). At line 234 the name \<^verbatim>\<open>np\<close> is read: the
  module never binds it.
\<close>

fun refine_loop ::
  "collaborators \<Rightarrow> image list \<Rightarrow> int \<Rightarrow> int \<Rightarrow> nat \<times> nat \<Rightarrow> int list \<Rightarrow> int \<Rightarrow> int \<Rightarrow> int \<Rightarrow>
   fit_state option \<Rightarrow> py_error + fit_state option" where
  "refine_loop cv dog_images_in_octave num_intervals image_border_width image_shape
     [] i j image_index previous = Inr previous"
| "refine_loop cv dog_images_in_octave num_intervals image_border_width image_shape
     (a # attempts) i j image_index previous =
     bind_err (pixel_cube_at dog_images_in_octave i j image_index) (\<lambda>cube.
     bind_err (computeGradientAtCenterPixel cube) (\<lambda>g.
     bind_err (computeHessianAtCenterPixel cube) (\<lambda>h.
     bind_err (lstsq cv h g) (\<lambda>solution.
     let update = map uminus solution in
     bind_err (global_module ''np'') (\<lambda>_.
     if list_all (\<lambda>u. \<bar>u\<bar> < 0.5) update then
       Inr (Some \<lparr>fit_i = i, fit_j = j, fit_image_index = image_index,
                  extremum_is_outside_image = False, attempt_index = a, pixel_cube = cube,
                  gradient = g, hessian = h, extremum_update = update\<rparr>)
     else
     bind_err (py_get update 0) (\<lambda>u0.
     let j' = j + np_round u0 in
     bind_err (py_get update 1) (\<lambda>u1.
     let i' = i + np_round u1 in
     bind_err (py_get update 2) (\<lambda>u2.
     let image_index' = image_index + np_round u2 in
     if i' < image_border_width \<or> i' \<ge> int (fst image_shape) - image_border_width \<or>
        j' < image_border_width \<or> j' \<ge> int (snd image_shape) - image_border_width \<or>
        image_index' < 1 \<or> image_index' > num_intervals
     then
       Inr (Some \<lparr>fit_i = i', fit_j = j', fit_image_index = image_index',
                  extremum_is_outside_image = True, attempt_index = a, pixel_cube = cube,
                  gradient = g, hessian = h, extremum_update = update\<rparr>)
     else
       refine_loop cv dog_images_in_octave num_intervals image_border_width image_shape
         attempts i' j' image_index'
         (Some \<lparr>fit_i = i', fit_j = j', fit_image_index = image_index',
                 extremum_is_outside_image = False, attempt_index = a, pixel_cube = cube,
                 gradient = g, hessian = h, extremum_update = update\<rparr>)))))))))"

text \<open>
  Lines 202 to 287. When the loop body never ran, \<^verbatim>\<open>attempt_index\<close> is unbound at
  line 250.
\<close>

definition localizeExtremumViaQuadraticFit ::
  "collaborators \<Rightarrow> int \<Rightarrow> int \<Rightarrow> int \<Rightarrow> int \<Rightarrow> int \<Rightarrow> image list \<Rightarrow> real \<Rightarrow> real \<Rightarrow> int \<Rightarrow> real \<Rightarrow> int \<Rightarrow>
   py_error + (keypoint \<times> int) option" where
  "localizeExtremumViaQuadraticFit cv i j image_index octave_index num_intervals
       dog_images_in_octave sigma contrast_threshold image_border_width eigenvalue_ratio
       num_attempts_until_convergence =
     bind_err (py_get dog_images_in_octave 0) (\<lambda>img0.
     let image_shape = shape img0 in
     bind_err (refine_loop cv dog_images_in_octave num_intervals image_border_width image_shape
                 (py_range 0 num_attempts_until_convergence) i j image_index None) (\<lambda>left.
     case left of
       None \<Rightarrow> Inl UnboundLocalError
     | Some st \<Rightarrow>
         if extremum_is_outside_image st then Inr None
         else if attempt_index st \<ge> num_attempts_until_convergence - 1 then Inr None
         else
           bind_err (get3 (pixel_cube st) 1 1 1) (\<lambda>center.
           bind_err (dot (gradient st) (extremum_update st)) (\<lambda>d.
           let functionValueAtUpdatedExtremum = center + 0.5 * d in
           if num_intervals = 0 then Inl ZeroDivisionError
           else if \<bar>functionValueAtUpdatedExtremum\<bar> \<ge> contrast_threshold / of_int num_intervals then
             (let xy_hessian = slice2 (hessian st) 0 2 0 2 in
              bind_err (trace2 xy_hessian) (\<lambda>xy_hessian_trace.
              bind_err (det2 xy_hessian) (\<lambda>xy_hessian_det.
              if xy_hessian_det > 0 \<and>
                 eigenvalue_ratio * (xy_hessian_trace ^ 2) < ((eigenvalue_ratio + 1) ^ 2) * xy_hessian_det
              then
                bind_err (py_get (extremum_update st) 0) (\<lambda>u0.
                bind_err (py_get (extremum_update st) 1) (\<lambda>u1.
                bind_err (py_get (extremum_update st) 2) (\<lambda>u2.
                Inr (Some
                  (KeyPoint
                     \<lparr>pt := ((of_int (fit_j st) + u0) * pow2 octave_index,
                             (of_int (fit_i st) + u1) * pow2 octave_index),
                      octave := octave_index + fit_image_index st * 2 ^ 8
                                 + np_round ((u2 + 0.5) * 255) * 2 ^ 16,
                      size_kp := sigma
                                 * (2 powr ((of_int (fit_image_index st) + u2) / of_int num_intervals))
                                 * pow2 (octave_index + 1),
                      response := \<bar>functionValueAtUpdatedExtremum\<bar>\<rparr>,
                   fit_image_index st)))))
              else Inr None)))
           else Inr None))))"

subsection \<open>Keypoint orientations\<close>

text \<open>
  Lines 354 to 363: one sample of the orientation histogram. (A \<open>scale\<close> of 0 gives
  NaN in numpy, which is outside the model.)
\<close>

definition orientation_sample ::
  "image \<Rightarrow> real \<Rightarrow> int \<Rightarrow> int \<Rightarrow> int \<Rightarrow> int \<Rightarrow> int \<Rightarrow> real list \<Rightarrow> py_error + real list" where
  "orientation_sample gaussian_image scale num_bins region_y region_x i j raw_histogram =
     bind_err (get2 gaussian_image region_y (region_x + 1)) (\<lambda>right.
     bind_err (get2 gaussian_image region_y (region_x - 1)) (\<lambda>left.
     let dx = right - left in
     bind_err (get2 gaussian_image (region_y - 1) region_x) (\<lambda>up.
     bind_err (get2 gaussian_image (region_y + 1) region_x) (\<lambda>down.
     let dy = up - down;
         gradient_magnitude = sqrt (dx * dx + dy * dy);
         gradient_orientation = rad2deg (arctan2 dy dx);
         weight = exp (- 0.5 * of_int (i ^ 2 + j ^ 2) / (scale ^ 2));
         histogram_index = np_round (gradient_orientation * of_int num_bins / 360)
     in if num_bins = 0 then Inl ZeroDivisionError
        else bind_err (py_index (length raw_histogram) (histogram_index mod num_bins)) (\<lambda>k.
               Inr (raw_histogram[k := raw_histogram ! k + weight * gradient_magnitude]))))))"

text \<open>Lines 348 to 363: the histogram over the square window around the keypoint.\<close>

definition orientation_histogram ::
  "keypoint \<Rightarrow> int \<Rightarrow> image \<Rightarrow> real \<Rightarrow> int \<Rightarrow> int \<Rightarrow> py_error + real list" where
  "orientation_histogram keypoint octave_index gaussian_image scale radius num_bins =
     (let image_shape = shape gaussian_image
      in if num_bins < 0 then Inl ValueError
         else
           fold_err
             (\<lambda>i raw_histogram.
                let region_y = np_round (snd (pt keypoint) / pow2 octave_index) + i
                in if 0 < region_y \<and> region_y < int (fst image_shape) - 1 then
                     fold_err
                       (\<lambda>j raw_histogram.
                          let region_x = np_round (fst (pt keypoint) / pow2 octave_index) + j
                          in if 0 < region_x \<and> region_x < int (snd image_shape) - 1 then
                               orientation_sample gaussian_image scale num_bins region_y region_x i j
                                 raw_histogram
                             else Inr raw_histogram)
                       (py_range (- radius) (radius + 1)) raw_histogram
                   else Inr raw_histogram)
             (py_range (- radius) (radius + 1)) (replicate (nat num_bins) 0))"

text \<open>Lines 368 and 369: one bin of the smoothed histogram.\<close>

definition smooth_bin :: "real list \<Rightarrow> int \<Rightarrow> int \<Rightarrow> py_error + real" where
  "smooth_bin raw_histogram num_bins n =
     bind_err (py_get raw_histogram n) (\<lambda>r0.
     bind_err (py_get raw_histogram (n - 1)) (\<lambda>rm1.
     bind_err (py_get raw_histogram ((n + 1) mod num_bins)) (\<lambda>rp1.
     bind_err (py_get raw_histogram (n - 2)) (\<lambda>rm2.
     bind_err (py_get raw_histogram ((n + 2) mod num_bins)) (\<lambda>rp2.
     Inr ((6 * r0 + 4 * (rm1 + rp1) + rm2 + rp2) / 16))))))"

definition smooth_histogram_of :: "real list \<Rightarrow> int \<Rightarrow> py_error + real list" where
  "smooth_histogram_of raw_histogram num_bins =
     map_err (smooth_bin raw_histogram num_bins) (py_range 0 num_bins)"

text \<open>
  Lines 373 and 374: the indices whose bin is greater than both of its neighbours on the
  circle (\<^verbatim>\<open>roll(h, 1)[n]\<close> is \<^verbatim>\<open>h[n - 1]\<close>, \<^verbatim>\<open>roll(h, -1)[n]\<close> is \<^verbatim>\<open>h[n + 1]\<close>, both
  modulo the length).
\<close>

definition is_peak :: "real list \<Rightarrow> nat \<Rightarrow> bool" where
  "is_peak h n =
     (h ! n > h ! ((n + length h - 1) mod length h) \<and> h ! n > h ! ((n + 1) mod length h))"

definition orientation_peaks :: "real list \<Rightarrow> nat list" where
  "orientation_peaks h = filter (is_peak h) [0..<length h]"

text \<open>Lines 380 to 383: the denominator of the parabola through a peak and its neighbours.\<close>

definition peak_denominator :: "real list \<Rightarrow> int \<Rightarrow> int \<Rightarrow> py_error + real" where
  "peak_denominator smooth_histogram num_bins peak_index =
     bind_err (py_get smooth_histogram peak_index) (\<lambda>peak_value.
     bind_err (py_get smooth_histogram ((peak_index - 1) mod num_bins)) (\<lambda>left_value.
     bind_err (py_get smooth_histogram ((peak_index + 1) mod num_bins)) (\<lambda>right_value.
     Inr (left_value - 2 * peak_value + right_value))))"

text \<open>Lines 380 to 386: the orientation of a peak, in degrees.\<close>

definition peak_orientation :: "real list \<Rightarrow> int \<Rightarrow> int \<Rightarrow> py_error + real" where
  "peak_orientation smooth_histogram num_bins peak_index =
     bind_err (py_get smooth_histogram ((peak_index - 1) mod num_bins)) (\<lambda>left_value.
     bind_err (py_get smooth_histogram ((peak_index + 1) mod num_bins)) (\<lambda>right_value.
     bind_err (peak_denominator smooth_histogram num_bins peak_index) (\<lambda>denominator.
     let interpolated_peak_index =
           float_mod (of_int peak_index + 0.5 * (left_value - right_value) / denominator)
             (of_int num_bins);
         orientation = 360 - interpolated_peak_index * 360 / of_int num_bins
     in Inr (if \<bar>orientation - 360\<bar> < float_tolerance then 0 else orientation))))"

text \<open>Lines 328 to 389.\<close>

definition computeKeypointsWithOrientations ::
  "keypoint \<Rightarrow> int \<Rightarrow> image \<Rightarrow> real \<Rightarrow> int \<Rightarrow> real \<Rightarrow> real \<Rightarrow> py_error + keypoint list" where
  "computeKeypointsWithOrientations keypoint octave_index gaussian_image radius_factor num_bins
       peak_ratio scale_factor =
     (let scale = scale_factor * size_kp keypoint / pow2 (octave_index + 1);
          radius = np_round (radius_factor * scale)
      in
      bind_err (orientation_histogram keypoint octave_index gaussian_image scale radius num_bins)
        (\<lambda>raw_histogram.
      bind_err (smooth_histogram_of raw_histogram num_bins) (\<lambda>smooth_histogram.
      if smooth_histogram = [] then Inl ValueError
      else
        let orientation_max = Max (set smooth_histogram) in
        fold_err
          (\<lambda>peak_index keypoints_with_orientations.
             bind_err (py_get smooth_histogram (int peak_index)) (\<lambda>peak_value.
             if peak_value \<ge> peak_ratio * orientation_max then
               bind_err (peak_orientation smooth_histogram num_bins (int peak_index)) (\<lambda>orientation.
               Inr (keypoints_with_orientations @
                    [KeyPoint\<lparr>pt := pt keypoint, size_kp := size_kp keypoint, angle := orientation,
                              response := response keypoint, octave := octave keypoint\<rparr>]))
             else Inr keypoints_with_orientations))
          (orientation_peaks smooth_histogram) [])))"

text \<open>
  Lines 165 to 182: the body of the scan at pixel \<open>(i, j)\<close> of the middle image of a
  triplet. The defaults of lines 203, 204, 328 and 329 are the arguments the calls leave
  out.
\<close>

definition scan_pixel ::
  "collaborators \<Rightarrow> image list list \<Rightarrow> int \<Rightarrow> real \<Rightarrow> int \<Rightarrow> real \<Rightarrow> real \<Rightarrow> int \<Rightarrow> image list \<Rightarrow>
   int \<Rightarrow> image \<Rightarrow> image \<Rightarrow> image \<Rightarrow> int \<Rightarrow> int \<Rightarrow> keypoint list \<Rightarrow> py_error + keypoint list" where
  "scan_pixel cv gaussian_images num_intervals sigma image_border_width contrast_threshold
       threshold octave_index dog_images_in_octave image_index first_image second_image
       third_image i j keypoints =
     bind_err (isPixelAnExtremum (slice2 first_image (i - 1) (i + 2) (j - 1) (j + 2))
                                 (slice2 second_image (i - 1) (i + 2) (j - 1) (j + 2))
                                 (slice2 third_image (i - 1) (i + 2) (j - 1) (j + 2))
                                 threshold) (\<lambda>is_extremum.
     if is_extremum then
       bind_err (localizeExtremumViaQuadraticFit cv i j (image_index + 1) octave_index num_intervals
                   dog_images_in_octave sigma contrast_threshold image_border_width 10 5)
         (\<lambda>localization_result.
       case localization_result of
         None \<Rightarrow> Inr keypoints
       | Some (keypoint, localized_image_index) \<Rightarrow>
           bind_err (py_get gaussian_images octave_index) (\<lambda>gaussian_images_in_octave.
           bind_err (py_get gaussian_images_in_octave localized_image_index) (\<lambda>gaussian_image.
           bind_err (computeKeypointsWithOrientations keypoint octave_index gaussian_image
                       3 36 0.8 1.5) (\<lambda>keypoints_with_orientations.
           Inr (keypoints @ keypoints_with_orientations)))))
     else Inr keypoints)"

text \<open>Line 154: \<^verbatim>\<open>floor(0.5 * contrast_threshold / num_intervals * 255)\<close>.\<close>

definition extremum_threshold :: "real \<Rightarrow> int \<Rightarrow> real" where
  "extremum_threshold contrast_threshold num_intervals =
     of_int \<lfloor>0.5 * contrast_threshold / of_int num_intervals * 255\<rfloor>"

text \<open>Lines 148 to 183.\<close>

definition findScaleSpaceExtrema ::
  "collaborators \<Rightarrow> image list list \<Rightarrow> image list list \<Rightarrow> int \<Rightarrow> real \<Rightarrow> int \<Rightarrow> real \<Rightarrow>
   py_error + keypoint list" where
  "findScaleSpaceExtrema cv gaussian_images dog_images num_intervals sigma image_border_width
       contrast_threshold =
     (if num_intervals = 0 then Inl ZeroDivisionError
      else
        let threshold = extremum_threshold contrast_threshold num_intervals in
        fold_err
          (\<lambda>(octave_index, dog_images_in_octave) keypoints.
             fold_err
               (\<lambda>(image_index, first_image, second_image, third_image) keypoints.
                  fold_err
                    (\<lambda>i keypoints.
                       fold_err
                         (\<lambda>j keypoints.
                            scan_pixel cv gaussian_images num_intervals sigma image_border_width
                              contrast_threshold threshold octave_index dog_images_in_octave
                              image_index first_image second_image third_image i j keypoints)
                         (py_range image_border_width
                            (int (snd (shape first_image)) - image_border_width))
                         keypoints)
                    (py_range image_border_width
                       (int (fst (shape first_image)) - image_border_width))
                    keypoints)
               (enumerate_py
                  (zip dog_images_in_octave
                     (zip (drop 1 dog_images_in_octave) (drop 2 dog_images_in_octave))))
               keypoints)
          (enumerate_py dog_images) [])"

subsection \<open>Duplicate keypoint removal\<close>

text \<open>Lines 396 to 411. The comparator returns a number; only its sign is used.\<close>

definition compareKeypoints :: "keypoint \<Rightarrow> keypoint \<Rightarrow> real" where
  "compareKeypoints keypoint1 keypoint2 =
     (if fst (pt keypoint1) \<noteq> fst (pt keypoint2) then fst (pt keypoint1) - fst (pt keypoint2)
      else if snd (pt keypoint1) \<noteq> snd (pt keypoint2) then snd (pt keypoint1) - snd (pt keypoint2)
      else if size_kp keypoint1 \<noteq> size_kp keypoint2 then size_kp keypoint2 - size_kp keypoint1
      else if angle keypoint1 \<noteq> angle keypoint2 then angle keypoint1 - angle keypoint2
      else if response keypoint1 \<noteq> response keypoint2 then response keypoint2 - response keypoint1
      else if octave keypoint1 \<noteq> octave keypoint2 then of_int (octave keypoint2 - octave keypoint1)
      else of_int (class_id keypoint2 - class_id keypoint1))"

text \<open>
  \<^verbatim>\<open>list.sort(key=cmp_to_key(cmp))\<close> is a stable sort that compares two elements \<open>a\<close>
  and \<open>b\<close> only by the test \<open>cmp a b < 0\<close>. It is modelled by the stable insertion
  sort that uses the same test.
\<close>

fun insort_cmp :: "('a \<Rightarrow> 'a \<Rightarrow> real) \<Rightarrow> 'a \<Rightarrow> 'a list \<Rightarrow> 'a list" where
  "insort_cmp cmp x [] = [x]"
| "insort_cmp cmp x (y # ys) = (if cmp y x < 0 then y # insort_cmp cmp x ys else x # y # ys)"

definition sort_cmp :: "('a \<Rightarrow> 'a \<Rightarrow> real) \<Rightarrow> 'a list \<Rightarrow> 'a list" where
  "sort_cmp cmp xs = foldr (insort_cmp cmp) xs []"

text \<open>Lines 425 to 428: the test that keeps the next keypoint.\<close>

definition differs :: "keypoint \<Rightarrow> keypoint \<Rightarrow> bool" where
  "differs last_unique_keypoint next_keypoint =
     (fst (pt last_unique_keypoint) \<noteq> fst (pt next_keypoint) \<or>
      snd (pt last_unique_keypoint) \<noteq> snd (pt next_keypoint) \<or>
      size_kp last_unique_keypoint \<noteq> size_kp next_keypoint \<or>
      angle last_unique_keypoint \<noteq> angle next_keypoint)"

text \<open>Lines 423 to 429: the walk over the sorted keypoints after the first.\<close>

fun unique_walk :: "keypoint list \<Rightarrow> keypoint list \<Rightarrow> keypoint list" where
  "unique_walk unique_keypoints [] = unique_keypoints"
| "unique_walk unique_keypoints (next_keypoint # rest) =
     (if differs (last unique_keypoints) next_keypoint
      then unique_walk (unique_keypoints @ [next_keypoint]) rest
      else unique_walk unique_keypoints rest)"

text \<open>Lines 414 to 430.\<close>

definition removeDuplicateKeypoints :: "keypoint list \<Rightarrow> keypoint list" where
  "removeDuplicateKeypoints keypoints =
     (if length keypoints < 2 then keypoints
      else (case sort_cmp compareKeypoints keypoints of
              [] \<Rightarrow> []
            | first_keypoint # rest \<Rightarrow> unique_walk [first_keypoint] rest))"

subsection \<open>Keypoint scale conversion\<close>

text \<open>Lines 443 to 445: one pass of the loop.\<close>

definition convert_keypoint :: "keypoint \<Rightarrow> keypoint" where
  "convert_keypoint keypoint =
     keypoint\<lparr>pt := (0.5 * fst (pt keypoint), 0.5 * snd (pt keypoint)),
              size_kp := size_kp keypoint * 0.5,
              octave := (octave keypoint AND NOT 255) OR ((octave keypoint - 1) AND 255)\<rparr>"

text \<open>Lines 437 to 447.\<close>

definition convertKeypointsToInputImageSize :: "keypoint list \<Rightarrow> keypoint list" where
  "convertKeypointsToInputImageSize keypoints = map convert_keypoint keypoints"

subsection \<open>Descriptor generation\<close>

text \<open>Lines 454 to 462.\<close>

definition unpackOctave :: "keypoint \<Rightarrow> int \<times> int \<times> real" where
  "unpackOctave keypoint =
     (let octave0 = octave keypoint AND 255;
          layer = drop_bit 8 (octave keypoint) AND 255;
          octave1 = (if octave0 \<ge> 128 then octave0 OR (- 128) else octave0);
          scale = (if octave1 \<ge> 0 then 1 / 2 ^ nat octave1 else 2 ^ nat (- octave1))
      in (octave1, layer, scale))"

text \<open>\<^verbatim>\<open>tensor[r, c, b] += v\<close> on a three-dimensional array.\<close>

definition add3 :: "real list list list \<Rightarrow> int \<Rightarrow> int \<Rightarrow> int \<Rightarrow> real \<Rightarrow> py_error + real list list list" where
  "add3 tensor r c b v =
     bind_err (py_index (length tensor) r) (\<lambda>ri.
     let plane = tensor ! ri in
     bind_err (py_index (length plane) c) (\<lambda>ci.
     let row = plane ! ci in
     bind_err (py_index (length row) b) (\<lambda>bi.
     Inr (tensor[ri := plane[ci := row[bi := row ! bi + v]]]))))"

text \<open>
  Lines 511 to 532: the sample at offset \<open>(row, col)\<close> of the window, appended to the four
  lists (kept here as one list of quadruples \<open>(row_bin, col_bin, magnitude,
  orientation_bin)\<close>). (A \<open>hist_width\<close> of 0 gives NaN or infinities in numpy, which is
  outside the model.)
\<close>

definition descriptor_sample ::
  "image \<Rightarrow> int \<times> int \<Rightarrow> real \<Rightarrow> real \<Rightarrow> real \<Rightarrow> real \<Rightarrow> real \<Rightarrow> real \<Rightarrow> int \<Rightarrow> int \<Rightarrow> int \<Rightarrow>
   (real \<times> real \<times> real \<times> real) list \<Rightarrow> py_error + (real \<times> real \<times> real \<times> real) list" where
  "descriptor_sample gaussian_image point angle' cos_angle sin_angle hist_width weight_multiplier
       degrees_per_bin window_width row col samples =
     (let num_rows = int (fst (shape gaussian_image));
          num_cols = int (snd (shape gaussian_image));
          row_rot = of_int col * sin_angle + of_int row * cos_angle;
          col_rot = of_int col * cos_angle - of_int row * sin_angle;
          row_bin = (row_rot / hist_width) + 0.5 * of_int window_width - 0.5;
          col_bin = (col_rot / hist_width) + 0.5 * of_int window_width - 0.5
      in if - 1 < row_bin \<and> row_bin < of_int window_width \<and>
            - 1 < col_bin \<and> col_bin < of_int window_width then
           (let window_row = snd point + row;
                window_col = fst point + col
            in if 0 < window_row \<and> window_row < num_rows - 1 \<and>
                  0 < window_col \<and> window_col < num_cols - 1 then
                 bind_err (get2 gaussian_image window_row (window_col + 1)) (\<lambda>right.
                 bind_err (get2 gaussian_image window_row (window_col - 1)) (\<lambda>left.
                 let dx = right - left in
                 bind_err (get2 gaussian_image (window_row - 1) window_col) (\<lambda>up.
                 bind_err (get2 gaussian_image (window_row + 1) window_col) (\<lambda>down.
                 let dy = up - down;
                     gradient_magnitude = sqrt (dx * dx + dy * dy);
                     gradient_orientation = float_mod (rad2deg (arctan2 dy dx)) 360;
                     weight = exp (weight_multiplier *
                                ((row_rot / hist_width) ^ 2 + (col_rot / hist_width) ^ 2))
                 in Inr (samples @
                      [(row_bin, col_bin, weight * gradient_magnitude,
                        (gradient_orientation - angle') / degrees_per_bin)])))))
               else Inr samples)
         else Inr samples)"

text \<open>Lines 541 to 567: one sample spread over the eight cells around it.\<close>

definition splat ::
  "int \<Rightarrow> real \<times> real \<times> real \<times> real \<Rightarrow> real list list list \<Rightarrow> py_error + real list list list" where
  "splat num_bins sample histogram_tensor =
     (case sample of (row_bin, col_bin, magnitude, orientation_bin) \<Rightarrow>
      let row_bin_floor = \<lfloor>row_bin\<rfloor>;
          col_bin_floor = \<lfloor>col_bin\<rfloor>;
          orientation_bin_floor0 = \<lfloor>orientation_bin\<rfloor>;
          row_fraction = row_bin - of_int row_bin_floor;
          col_fraction = col_bin - of_int col_bin_floor;
          orientation_fraction = orientation_bin - of_int orientation_bin_floor0
      in if num_bins = 0 then Inl ZeroDivisionError
         else
           let orientation_bin_floor = orientation_bin_floor0 mod num_bins;
               c1 = magnitude * row_fraction;
               c0 = magnitude * (1 - row_fraction);
               c11 = c1 * col_fraction;
               c10 = c1 * (1 - col_fraction);
               c01 = c0 * col_fraction;
               c00 = c0 * (1 - col_fraction);
               c111 = c11 * orientation_fraction;
               c110 = c11 * (1 - orientation_fraction);
               c101 = c10 * orientation_fraction;
               c100 = c10 * (1 - orientation_fraction);
               c011 = c01 * orientation_fraction;
               c010 = c01 * (1 - orientation_fraction);
               c001 = c00 * orientation_fraction;
               c000 = c00 * (1 - orientation_fraction)
           in
           bind_err (add3 histogram_tensor (row_bin_floor + 1) (col_bin_floor + 1)
                       orientation_bin_floor c000) (\<lambda>t.
           bind_err (add3 t (row_bin_floor + 1) (col_bin_floor + 1)
                       ((orientation_bin_floor + 1) mod num_bins) c001) (\<lambda>t.
           bind_err (add3 t (row_bin_floor + 1) (col_bin_floor + 2)
                       orientation_bin_floor c010) (\<lambda>t.
           bind_err (add3 t (row_bin_floor + 1) (col_bin_floor + 2)
                       ((orientation_bin_floor + 1) mod num_bins) c011) (\<lambda>t.
           bind_err (add3 t (row_bin_floor + 2) (col_bin_floor + 1)
                       orientation_bin_floor c100) (\<lambda>t.
           bind_err (add3 t (row_bin_floor + 2) (col_bin_floor + 1)
                       ((orientation_bin_floor + 1) mod num_bins) c101) (\<lambda>t.
           bind_err (add3 t (row_bin_floor + 2) (col_bin_floor + 2)
                       orientation_bin_floor c110) (\<lambda>t.
           add3 t (row_bin_floor + 2) (col_bin_floor + 2)
             ((orientation_bin_floor + 1) mod num_bins) c111))))))))"

text \<open>
  Lines 475 to 567: the histogram tensor of one keypoint, of
  \<open>(window_width + 2) \<times> (window_width + 2) \<times> num_bins\<close> cells.
\<close>

definition descriptor_histogram ::
  "keypoint \<Rightarrow> image list list \<Rightarrow> int \<Rightarrow> int \<Rightarrow> real \<Rightarrow> py_error + real list list list" where
  "descriptor_histogram keypoint gaussian_images window_width num_bins scale_multiplier =
     (case unpackOctave keypoint of (octave', layer, scale) \<Rightarrow>
      bind_err (get2 gaussian_images (octave' + 1) layer) (\<lambda>gaussian_image.
      let num_rows = int (fst (shape gaussian_image));
          num_cols = int (snd (shape gaussian_image));
          point = (np_round (scale * fst (pt keypoint)), np_round (scale * snd (pt keypoint)))
      in if num_bins = 0 then Inl ZeroDivisionError
         else
           let degrees_per_bin = 360 / of_int num_bins;
               angle' = 360 - angle keypoint;
               cos_angle = cos (deg2rad angle');
               sin_angle = sin (deg2rad angle')
           in if window_width = 0 then Inl ZeroDivisionError
              else
                let weight_multiplier = - 0.5 / ((0.5 * of_int window_width) ^ 2)
                in if window_width + 2 < 0 \<or> num_bins < 0 then Inl ValueError
                   else
                     let histogram_tensor =
                           replicate (nat (window_width + 2))
                             (replicate (nat (window_width + 2)) (replicate (nat num_bins) 0));
                         hist_width = scale_multiplier * 0.5 * scale * size_kp keypoint;
                         half_width0 = np_round (hist_width * sqrt 2 * of_int (window_width + 1) * 0.5);
                         half_width =
                           \<lfloor>min (of_int half_width0) (sqrt (of_int (num_rows ^ 2 + num_cols ^ 2)))\<rfloor>
                     in
                     bind_err
                       (fold_err
                          (\<lambda>row samples.
                             fold_err
                               (\<lambda>col samples.
                                  descriptor_sample gaussian_image point angle' cos_angle sin_angle
                                    hist_width weight_multiplier degrees_per_bin window_width
                                    row col samples)
                               (py_range (- half_width) (half_width + 1)) samples)
                          (py_range (- half_width) (half_width + 1)) [])
                       (\<lambda>samples. fold_err (splat num_bins) samples histogram_tensor)))"

text \<open>Line 569: the tensor without its border, flattened.\<close>

definition strip_and_flatten :: "real list list list \<Rightarrow> real list" where
  "strip_and_flatten histogram_tensor =
     concat (map (\<lambda>plane. concat (py_slice plane 1 (- 1))) (py_slice histogram_tensor 1 (- 1)))"

text \<open>Lines 571 and 572: the clipping.\<close>

definition clip_descriptor :: "real \<Rightarrow> real list \<Rightarrow> real list" where
  "clip_descriptor descriptor_max_value descriptor_vector =
     (let threshold = norm2 descriptor_vector * descriptor_max_value
      in map (\<lambda>x. if x > threshold then threshold else x) descriptor_vector)"

text \<open>Line 573: the normalisation, and the number it divides by.\<close>

definition normalization_denominator :: "real list \<Rightarrow> real" where
  "normalization_denominator descriptor_vector = max (norm2 descriptor_vector) float_tolerance"

definition normalize_descriptor :: "real list \<Rightarrow> real list" where
  "normalize_descriptor descriptor_vector =
     map (\<lambda>x. x / normalization_denominator descriptor_vector) descriptor_vector"

text \<open>Lines 575 to 577: the quantisation.\<close>

definition quantize_descriptor :: "real list \<Rightarrow> real list" where
  "quantize_descriptor descriptor_vector =
     map (\<lambda>x. let r = of_int (np_round (512 * x))
               in if r < 0 then 0 else if r > 255 then 255 else r) descriptor_vector"

text \<open>Lines 569 to 578.\<close>

definition finish_descriptor :: "real \<Rightarrow> real list list list \<Rightarrow> real list" where
  "finish_descriptor descriptor_max_value histogram_tensor =
     quantize_descriptor
       (normalize_descriptor (clip_descriptor descriptor_max_value (strip_and_flatten histogram_tensor)))"

text \<open>Lines 465 to 579.\<close>

definition generateDescriptors ::
  "keypoint list \<Rightarrow> image list list \<Rightarrow> int \<Rightarrow> int \<Rightarrow> real \<Rightarrow> real \<Rightarrow> py_error + real list list" where
  "generateDescriptors keypoints gaussian_images window_width num_bins scale_multiplier
       descriptor_max_value =
     map_err
       (\<lambda>keypoint.
          bind_err (descriptor_histogram keypoint gaussian_images window_width num_bins scale_multiplier)
            (\<lambda>histogram_tensor. Inr (finish_descriptor descriptor_max_value histogram_tensor)))
       keypoints"

subsection \<open>Main function\<close>

text \<open>
  Lines 28 to 41, with the defaults of lines 149 and 465 and 466 for the arguments the
  calls leave out.
\<close>

definition computeKeypointsAndDescriptors ::
  "collaborators \<Rightarrow> image \<Rightarrow> real \<Rightarrow> int \<Rightarrow> real \<Rightarrow> int \<Rightarrow> py_error + (keypoint list \<times> real list list)" where
  "computeKeypointsAndDescriptors cv img sigma num_intervals assumed_blur image_border_width =
     bind_err (generateBaseImage cv img sigma assumed_blur) (\<lambda>base_image.
     bind_err (computeNumberOfOctaves (shape base_image)) (\<lambda>num_octaves.
     bind_err (generateGaussianKernels sigma num_intervals) (\<lambda>gaussian_kernels.
     bind_err (generateGaussianImages cv base_image num_octaves gaussian_kernels) (\<lambda>gaussian_images.
     bind_err (generateDoGImages gaussian_images) (\<lambda>dog_images.
     bind_err (findScaleSpaceExtrema cv gaussian_images dog_images num_intervals sigma
                 image_border_width 0.04) (\<lambda>keypoints.
     let keypoints' = removeDuplicateKeypoints keypoints;
         keypoints'' = convertKeypointsToInputImageSize keypoints'
     in bind_err (generateDescriptors keypoints'' gaussian_images 4 8 3 0.2) (\<lambda>descriptors.
        Inr (keypoints'', descriptors))))))))"

subsection \<open>Notions of the specification and inputs used in examples\<close>

text \<open>
  The nine values of the 3x3 window of an image around \<open>(i, j)\<close>, and the 26 neighbours
  of pixel \<open>(i, j)\<close> of the middle image of a triplet: the windows of the images below
  and above, and the window of the middle image without its centre.
\<close>

definition window9 :: "image \<Rightarrow> nat \<Rightarrow> nat \<Rightarrow> real list" where
  "window9 img i j =
     [img ! (i - 1) ! (j - 1), img ! (i - 1) ! j, img ! (i - 1) ! (j + 1),
      img ! i ! (j - 1), img ! i ! j, img ! i ! (j + 1),
      img ! (i + 1) ! (j - 1), img ! (i + 1) ! j, img ! (i + 1) ! (j + 1)]"

definition neighbours26 :: "image \<Rightarrow> image \<Rightarrow> image \<Rightarrow> nat \<Rightarrow> nat \<Rightarrow> real list" where
  "neighbours26 first_image second_image third_image i j =
     window9 first_image i j @
     [second_image ! (i - 1) ! (j - 1), second_image ! (i - 1) ! j, second_image ! (i - 1) ! (j + 1),
      second_image ! i ! (j - 1), second_image ! i ! (j + 1),
      second_image ! (i + 1) ! (j - 1), second_image ! (i + 1) ! j, second_image ! (i + 1) ! (j + 1)] @
     window9 third_image i j"

text \<open>
  The octave count as the specification words it:
  \<open>floor(log2(min(input_height, input_width)) - 1)\<close>.
\<close>

definition spec_octave_count :: "nat \<Rightarrow> nat \<Rightarrow> int" where
  "spec_octave_count input_height input_width =
     \<lfloor>log 2 (real (min input_height input_width)) - 1\<rfloor>"

text \<open>
  The key by which \<open>compareKeypoints\<close> orders keypoints: x, then y, then the size
  descending, then the angle, then the response, the packed octave and the class id
  descending. Tuples are ordered lexicographically.
\<close>

definition comparator_key :: "keypoint \<Rightarrow> real \<times> real \<times> real \<times> real \<times> real \<times> int \<times> int" where
  "comparator_key k =
     (fst (pt k), snd (pt k), - size_kp k, angle k, - response k, - octave k, - class_id k)"

text \<open>
  The walk of lines 423 to 429 as a function of the last keypoint kept: the keypoints it
  appends.
\<close>

fun dedup_from :: "keypoint \<Rightarrow> keypoint list \<Rightarrow> keypoint list" where
  "dedup_from last_unique_keypoint [] = []"
| "dedup_from last_unique_keypoint (next_keypoint # rest) =
     (if differs last_unique_keypoint next_keypoint
      then next_keypoint # dedup_from next_keypoint rest
      else dedup_from last_unique_keypoint rest)"

text \<open>Three keypoints; the first and the third differ in their response only.\<close>

definition kp_a :: keypoint where
  "kp_a = KeyPoint\<lparr>pt := (2, 1), size_kp := 4, angle := 10, response := 1 / 10\<rparr>"

definition kp_b :: keypoint where
  "kp_b = KeyPoint\<lparr>pt := (1, 1), size_kp := 4, angle := 20, response := 1 / 10\<rparr>"

definition kp_c :: keypoint where
  "kp_c = KeyPoint\<lparr>pt := (2, 1), size_kp := 4, angle := 10, response := 3 / 10\<rparr>"

text \<open>
  A 3x3 image with one faint pixel, a keypoint at its centre, and the orientation
  histogram of the keypoint before and after smoothing.
\<close>

definition faint_image :: image where
  "faint_image = [[0, 0, 0], [0, 0, 1 / 10 ^ 9], [0, 0, 0]]"

definition faint_keypoint :: keypoint where
  "faint_keypoint = KeyPoint\<lparr>pt := (1, 1), size_kp := 1 / 10, response := 1 / 10, octave := 256\<rparr>"

definition faint_histogram :: "real list" where
  "faint_histogram =
     [1 / 10 ^ 9, 0, 0, 0, 0, 0, 0, 0, 0, 0, 0, 0, 0, 0, 0, 0, 0, 0,
      0, 0, 0, 0, 0, 0, 0, 0, 0, 0, 0, 0, 0, 0, 0, 0, 0, 0]"

definition faint_smooth :: "real list" where
  "faint_smooth =
     [6 / (16 * 10 ^ 9), 4 / (16 * 10 ^ 9), 1 / (16 * 10 ^ 9), 0, 0, 0, 0, 0, 0, 0, 0, 0,
      0, 0, 0, 0, 0, 0, 0, 0, 0, 0, 0, 0,
      0, 0, 0, 0, 0, 0, 0, 0, 0, 0, 1 / (16 * 10 ^ 9), 4 / (16 * 10 ^ 9)]"

text \<open>The shape of a three-dimensional array.\<close>

definition tensor_dims :: "nat \<Rightarrow> nat \<Rightarrow> nat \<Rightarrow> real list list list \<Rightarrow> bool" where
  "tensor_dims a b c tensor =
     (length tensor = a \<and>
      list_all (\<lambda>plane. length plane = b \<and> list_all (\<lambda>row. length row = c) plane) tensor)"

text \<open>
  A 3x3 image with a step at its right edge, a keypoint at its centre, the histogram
  tensor of the keypoint, the tensor without its border, and the descriptor.
\<close>

definition step_image :: image where
  "step_image = [[0, 0, 0], [0, 0, 1], [0, 0, 0]]"

definition step_keypoint :: keypoint where
  "step_keypoint = KeyPoint\<lparr>pt := (1 / 2, 1 / 2), size_kp := 1 / 100, angle := 0, octave := 255\<rparr>"

definition zero_row :: "real list" where
  "zero_row = [0, 0, 0, 0, 0, 0, 0, 0]"

definition hit_row :: "real list" where
  "hit_row = [1 / 4, 0, 0, 0, 0, 0, 0, 0]"

definition zero_plane :: "real list list" where
  "zero_plane = [zero_row, zero_row, zero_row, zero_row, zero_row, zero_row]"

definition hit_plane :: "real list list" where
  "hit_plane = [zero_row, zero_row, hit_row, hit_row, zero_row, zero_row]"

definition step_tensor :: "real list list list" where
  "step_tensor = [zero_plane, zero_plane, hit_plane, hit_plane, zero_plane, zero_plane]"

definition step_vector :: "real list" where
  "step_vector =
     replicate 40 0 @ [1 / 4] @ replicate 7 0 @ [1 / 4] @ replicate 23 0 @ [1 / 4] @
     replicate 7 0 @ [1 / 4] @ replicate 47 0"

definition step_descriptor :: "real list" where
  "step_descriptor =
     replicate 40 0 @ [255] @ replicate 7 0 @ [255] @ replicate 23 0 @ [255] @
     replicate 7 0 @ [255] @ replicate 47 0"

text \<open>Two 5x5 images: a flat one, and one with a single bump at its centre.\<close>

definition flat5 :: image where
  "flat5 = [[0,0,0,0,0],[0,0,0,0,0],[0,0,0,0,0],[0,0,0,0,0],[0,0,0,0,0]]"

definition bump5 :: image where
  "bump5 = [[0,0,0,0,0],[0,0,0,0,0],[0,0,9,0,0],[0,0,0,0,0],[0,0,0,0,0]]"

text \<open>
  Collaborators for examples: the resize by a factor repeats every pixel twice in both
  directions, the blur returns its image, the other two refuse every call.
\<close>

definition replicating_collaborators :: collaborators where
  "replicating_collaborators =
     \<lparr>resize_by = (\<lambda>img fx fy. Inr (concat (map (\<lambda>row. let r = concat (map (\<lambda>v. [v, v]) row) in [r, r]) img))),
      resize_to = (\<lambda>img wh. Inl CvError),
      GaussianBlur = (\<lambda>img s. Inr img),
      lstsq = (\<lambda>a b. Inl ValueError)\<rparr>"

section \<open>Properties\<close>

subsection \<open>Errors and name resolution\<close>

lemma bind_err_Inl: "bind_err (Inl e) f = Inl e"
  by (simp add: bind_err_def)

lemma bind_err_Inr: "bind_err (Inr v) f = f v"
  by (simp add: bind_err_def)

lemma center_pixel_value_unbound: "global_number ''center_pixel_value'' = Inl NameError"
  by (simp add: global_number_def module_names_def builtin_names_def)

lemma np_unbound: "global_module ''np'' = Inl NameError"
  by (simp add: global_module_def module_names_def builtin_names_def)

subsection \<open>Gradient and Hessian at the centre of a cube\<close>

lemma gradient_of_cube:
  "computeGradientAtCenterPixel
     [[[a0, a1, a2], [a3, a4, a5], [a6, a7, a8]],
      [[b0, b1, b2], [b3, b4, b5], [b6, b7, b8]],
      [[c0, c1, c2], [c3, c4, c5], [c6, c7, c8]]]
   = Inr [(b5 - b3) / 2, (b7 - b1) / 2, (c4 - a4) / 2]"
  by (simp add: computeGradientAtCenterPixel_def bind_err_def get3_def get2_def py_get_def
      py_index_def)

lemma hessian_of_cube:
  "computeHessianAtCenterPixel
     [[[a0, a1, a2], [a3, a4, a5], [a6, a7, a8]],
      [[b0, b1, b2], [b3, b4, b5], [b6, b7, b8]],
      [[c0, c1, c2], [c3, c4, c5], [c6, c7, c8]]]
   = Inl NameError"
  by (simp add: computeHessianAtCenterPixel_def bind_err_def get3_def get2_def py_get_def
      py_index_def center_pixel_value_unbound)

lemma hessian_never_returns: "\<exists>e. computeHessianAtCenterPixel pixel_array = Inl e"
  by (simp add: computeHessianAtCenterPixel_def bind_err_def center_pixel_value_unbound
      split: sum.splits)

text \<open>
  Claim C2. On every 3x3x3 cube \<open>computeGradientAtCenterPixel\<close> returns the central
  differences \<open>(f(x+1) - f(x-1)) / 2\<close> along x, y and scale, as the claim says. But
  \<open>computeHessianAtCenterPixel\<close> returns no matrix: line 313 reads
  \<^verbatim>\<open>center_pixel_value\<close>, whose assignment at line 312 is commented out, and raises
  \<^verbatim>\<open>NameError\<close>.
\<close>

theorem computeHessianAtCenterPixel_raises_NameError:
  "computeGradientAtCenterPixel
     [[[a0, a1, a2], [a3, a4, a5], [a6, a7, a8]],
      [[b0, b1, b2], [b3, b4, b5], [b6, b7, b8]],
      [[c0, c1, c2], [c3, c4, c5], [c6, c7, c8]]]
   = Inr [(b5 - b3) / 2, (b7 - b1) / 2, (c4 - a4) / 2]
   \<and> computeHessianAtCenterPixel
     [[[a0, a1, a2], [a3, a4, a5], [a6, a7, a8]],
      [[b0, b1, b2], [b3, b4, b5], [b6, b7, b8]],
      [[c0, c1, c2], [c3, c4, c5], [c6, c7, c8]]]
   = Inl NameError"
  by (simp only: gradient_of_cube hessian_of_cube)

subsection \<open>Localisation of an extremum\<close>

lemma refine_loop_raises:
  "\<exists>e. refine_loop cv dogs num_intervals border image_shape (a # attempts) i j image_index previous
        = Inl e"
proof (cases "pixel_cube_at dogs i j image_index")
  case (Inl e)
  then show ?thesis by (simp add: bind_err_Inl)
next
  case cube: (Inr cube)
  show ?thesis
  proof (cases "computeGradientAtCenterPixel cube")
    case (Inl e)
    with cube show ?thesis by (simp add: bind_err_Inl bind_err_Inr)
  next
    case g: (Inr g)
    obtain e where "computeHessianAtCenterPixel cube = Inl e"
      using hessian_never_returns by blast
    with cube g show ?thesis by (simp add: bind_err_Inl bind_err_Inr)
  qed
qed

text \<open>Whatever its arguments, the function raises: it never returns a keypoint or \<open>None\<close>.\<close>

lemma localizeExtremumViaQuadraticFit_never_returns:
  "\<exists>e. localizeExtremumViaQuadraticFit cv i j image_index octave_index num_intervals
          dog_images_in_octave sigma contrast_threshold image_border_width eigenvalue_ratio
          num_attempts_until_convergence = Inl e"
proof (cases "py_get dog_images_in_octave 0")
  case (Inl e)
  then show ?thesis by (simp add: localizeExtremumViaQuadraticFit_def bind_err_Inl)
next
  case img: (Inr img0)
  show ?thesis
  proof (cases "py_range 0 num_attempts_until_convergence")
    case Nil
    with img show ?thesis
      by (simp add: localizeExtremumViaQuadraticFit_def bind_err_Inl bind_err_Inr)
  next
    case (Cons a attempts)
    obtain e where "refine_loop cv dog_images_in_octave num_intervals image_border_width (shape img0)
                 (a # attempts) i j image_index None = Inl e"
      using refine_loop_raises by blast
    with img Cons show ?thesis
      by (simp add: localizeExtremumViaQuadraticFit_def bind_err_Inl bind_err_Inr)
  qed
qed

lemma window_flat5: "slice2 flat5 1 4 1 4 = [[0, 0, 0], [0, 0, 0], [0, 0, 0]]"
  by (simp add: slice2_def py_slice_def slice_bound_def flat5_def)

lemma window_bump5: "slice2 bump5 1 4 1 4 = [[0, 0, 0], [0, 9, 0], [0, 0, 0]]"
  by (simp add: slice2_def py_slice_def slice_bound_def bump5_def)

lemma cube_bump5:
  "pixel_cube_at [flat5, bump5, flat5, flat5, flat5] 2 2 1
     = Inr [[[0, 0, 0], [0, 0, 0], [0, 0, 0]],
            [[0, 0, 0], [0, 9 / 255, 0], [0, 0, 0]],
            [[0, 0, 0], [0, 0, 0], [0, 0, 0]]]"
  by (simp add: pixel_cube_at_def py_slice_def slice_bound_def window_flat5 window_bump5 Let_def)

lemma range_0_5: "py_range 0 5 = [0, 1, 2, 3, 4]"
  by (simp add: py_range_def upto_rec1)

text \<open>
  Claim C1. The centre of \<open>bump5\<close> between two flat images is a candidate extremum
  under the default threshold, and the refinement of this candidate with the default
  budget of 5 attempts neither converges nor returns \<open>None\<close>: the first attempt raises
  \<^verbatim>\<open>NameError\<close> at line 222 (the Hessian reads the unbound \<^verbatim>\<open>center_pixel_value\<close>);
  line 234 would raise it too (\<^verbatim>\<open>np\<close> is unbound).
\<close>

theorem localizeExtremumViaQuadraticFit_raises_NameError:
  "isPixelAnExtremum (slice2 flat5 1 4 1 4) (slice2 bump5 1 4 1 4) (slice2 flat5 1 4 1 4)
      (extremum_threshold 0.04 3) = Inr True
   \<and> localizeExtremumViaQuadraticFit cv 2 2 1 0 3 [flat5, bump5, flat5, flat5, flat5]
        1.6 0.04 1 10 5 = Inl NameError"
proof -
  have "isPixelAnExtremum (slice2 flat5 1 4 1 4) (slice2 bump5 1 4 1 4) (slice2 flat5 1 4 1 4)
      (extremum_threshold 0.04 3) = Inr True"
    by (simp add: window_flat5 window_bump5 isPixelAnExtremum_def all_pixels_def get2_def
        py_get_def py_index_def extremum_threshold_def)
  moreover have "localizeExtremumViaQuadraticFit cv 2 2 1 0 3 [flat5, bump5, flat5, flat5, flat5]
        1.6 0.04 1 10 5 = Inl NameError"
    by (simp add: localizeExtremumViaQuadraticFit_def bind_err_Inl bind_err_Inr py_get_def
        py_index_def range_0_5 cube_bump5 gradient_of_cube hessian_of_cube)
  ultimately show ?thesis by simp
qed

subsection \<open>Detection of candidate extrema\<close>

lemma take3_drop:
  assumes "k + 3 \<le> length xs"
  shows "take 3 (drop k xs) = [xs ! k, xs ! (k + 1), xs ! (k + 2)]"
proof -
  have "drop k xs = xs ! k # drop (Suc k) xs" using assms by (simp add: Cons_nth_drop_Suc)
  moreover have "drop (Suc k) xs = xs ! (k + 1) # drop (Suc (Suc k)) xs"
    using assms by (simp add: Cons_nth_drop_Suc)
  moreover have "drop (Suc (Suc k)) xs = xs ! (k + 2) # drop (Suc (Suc (Suc k))) xs"
    using assms by (simp add: Cons_nth_drop_Suc)
  ultimately show ?thesis by (simp add: numeral_3_eq_3)
qed

lemma py_slice_window:
  assumes "1 \<le> i" "i + 1 < length xs"
  shows "py_slice xs (int i - 1) (int i + 2) = [xs ! (i - 1), xs ! i, xs ! (i + 1)]"
proof -
  have s: "slice_bound (length xs) (int i - 1) = i - 1"
    using assms by (simp add: slice_bound_def nat_diff_distrib')
  have e: "slice_bound (length xs) (int i + 2) = i + 2"
    using assms by (simp add: slice_bound_def nat_add_distrib)
  have "take 3 (drop (i - 1) xs) = [xs ! (i - 1), xs ! (i - 1 + 1), xs ! (i - 1 + 2)]"
    using assms by (intro take3_drop) simp
  moreover have "i - 1 + 1 = i" "i - 1 + 2 = i + 1" using assms by simp_all
  moreover have "i + 2 - (i - 1) = 3" using assms by simp
  ultimately show ?thesis by (simp add: py_slice_def s e)
qed

lemma slice2_window:
  assumes "1 \<le> i" "i + 1 < length img" "1 \<le> j"
    and "list_all (\<lambda>row. j + 1 < length row) img"
  shows "slice2 img (int i - 1) (int i + 2) (int j - 1) (int j + 2) =
     [[img ! (i - 1) ! (j - 1), img ! (i - 1) ! j, img ! (i - 1) ! (j + 1)],
      [img ! i ! (j - 1), img ! i ! j, img ! i ! (j + 1)],
      [img ! (i + 1) ! (j - 1), img ! (i + 1) ! j, img ! (i + 1) ! (j + 1)]]"
proof -
  have rows: "j + 1 < length (img ! k)" if "k < length img" for k
    using assms(4) that by (simp add: list_all_length)
  have "j + 1 < length (img ! (i - 1))" "j + 1 < length (img ! i)" "j + 1 < length (img ! (i + 1))"
    using assms rows by simp_all
  then show ?thesis
    using assms by (simp add: slice2_def py_slice_window)
qed

lemma isPixelAnExtremum_windows:
  "isPixelAnExtremum [[a0, a1, a2], [a3, a4, a5], [a6, a7, a8]]
                     [[b0, b1, b2], [b3, c, b5], [b6, b7, b8]]
                     [[d0, d1, d2], [d3, d4, d5], [d6, d7, d8]] threshold =
   Inr (\<bar>c\<bar> > threshold \<and>
        (c > 0 \<and> list_all (\<lambda>v. c \<ge> v)
                    ([a0, a1, a2, a3, a4, a5, a6, a7, a8] @ [b0, b1, b2, b3, b5, b6, b7, b8] @
                     [d0, d1, d2, d3, d4, d5, d6, d7, d8]) \<or>
         c < 0 \<and> list_all (\<lambda>v. c \<le> v)
                    ([a0, a1, a2, a3, a4, a5, a6, a7, a8] @ [b0, b1, b2, b3, b5, b6, b7, b8] @
                     [d0, d1, d2, d3, d4, d5, d6, d7, d8])))"
  by (auto simp add: isPixelAnExtremum_def all_pixels_def get2_def py_get_def py_index_def)

text \<open>
  Claim C5. Let \<open>(i, j)\<close> be a pixel with all of its 3x3 window inside three DoG images
  (every pixel the scan of lines 162 to 164 visits is one when the border width is at
  least 1). The test the scan applies to it at lines 165 to 168, with the threshold of
  line 154, holds if and only if the absolute value of the pixel exceeds
  \<open>floor(0.5 * contrast_threshold / num_intervals * 255)\<close> and the pixel is positive and
  at least as large as each of its 26 neighbours, or negative and at most as large as
  each of them. A pixel of value 0 is never a candidate.
\<close>

theorem isPixelAnExtremum_iff:
  assumes "1 \<le> i" "i + 1 < length second_image" "1 \<le> j"
    and "length first_image = length second_image" "length third_image = length second_image"
    and "list_all (\<lambda>row. j + 1 < length row) first_image"
    and "list_all (\<lambda>row. j + 1 < length row) second_image"
    and "list_all (\<lambda>row. j + 1 < length row) third_image"
  shows "isPixelAnExtremum
           (slice2 first_image (int i - 1) (int i + 2) (int j - 1) (int j + 2))
           (slice2 second_image (int i - 1) (int i + 2) (int j - 1) (int j + 2))
           (slice2 third_image (int i - 1) (int i + 2) (int j - 1) (int j + 2))
           (extremum_threshold contrast_threshold num_intervals)
         = Inr (\<bar>second_image ! i ! j\<bar>
                  > of_int \<lfloor>0.5 * contrast_threshold / of_int num_intervals * 255\<rfloor> \<and>
                (second_image ! i ! j > 0 \<and>
                   list_all (\<lambda>v. second_image ! i ! j \<ge> v)
                     (neighbours26 first_image second_image third_image i j) \<or>
                 second_image ! i ! j < 0 \<and>
                   list_all (\<lambda>v. second_image ! i ! j \<le> v)
                     (neighbours26 first_image second_image third_image i j)))
       \<and> (second_image ! i ! j = 0 \<longrightarrow>
            isPixelAnExtremum
              (slice2 first_image (int i - 1) (int i + 2) (int j - 1) (int j + 2))
              (slice2 second_image (int i - 1) (int i + 2) (int j - 1) (int j + 2))
              (slice2 third_image (int i - 1) (int i + 2) (int j - 1) (int j + 2))
              (extremum_threshold contrast_threshold num_intervals) = Inr False)"
proof -
  have w1: "slice2 first_image (int i - 1) (int i + 2) (int j - 1) (int j + 2) =
     [[first_image ! (i - 1) ! (j - 1), first_image ! (i - 1) ! j, first_image ! (i - 1) ! (j + 1)],
      [first_image ! i ! (j - 1), first_image ! i ! j, first_image ! i ! (j + 1)],
      [first_image ! (i + 1) ! (j - 1), first_image ! (i + 1) ! j, first_image ! (i + 1) ! (j + 1)]]"
    using assms by (intro slice2_window) simp_all
  have w2: "slice2 second_image (int i - 1) (int i + 2) (int j - 1) (int j + 2) =
     [[second_image ! (i - 1) ! (j - 1), second_image ! (i - 1) ! j, second_image ! (i - 1) ! (j + 1)],
      [second_image ! i ! (j - 1), second_image ! i ! j, second_image ! i ! (j + 1)],
      [second_image ! (i + 1) ! (j - 1), second_image ! (i + 1) ! j, second_image ! (i + 1) ! (j + 1)]]"
    using assms by (intro slice2_window) simp_all
  have w3: "slice2 third_image (int i - 1) (int i + 2) (int j - 1) (int j + 2) =
     [[third_image ! (i - 1) ! (j - 1), third_image ! (i - 1) ! j, third_image ! (i - 1) ! (j + 1)],
      [third_image ! i ! (j - 1), third_image ! i ! j, third_image ! i ! (j + 1)],
      [third_image ! (i + 1) ! (j - 1), third_image ! (i + 1) ! j, third_image ! (i + 1) ! (j + 1)]]"
    using assms by (intro slice2_window) simp_all
  show ?thesis
    unfolding w1 w2 w3 isPixelAnExtremum_windows
    by (simp add: neighbours26_def window9_def extremum_threshold_def)
qed

theorem isPixelAnExtremum_iff_witness:
  "isPixelAnExtremum
           (slice2 flat5 (int 2 - 1) (int 2 + 2) (int 2 - 1) (int 2 + 2))
           (slice2 bump5 (int 2 - 1) (int 2 + 2) (int 2 - 1) (int 2 + 2))
           (slice2 flat5 (int 2 - 1) (int 2 + 2) (int 2 - 1) (int 2 + 2))
           (extremum_threshold 0.04 3) = Inr True
   \<and> extremum_threshold 0.04 3 = 1
   \<and> bump5 ! 2 ! 2 = 9
   \<and> list_all (\<lambda>v. bump5 ! 2 ! 2 \<ge> v) (neighbours26 flat5 bump5 flat5 2 2)"
proof -
  have thr: "extremum_threshold 0.04 3 = 1" by (simp add: extremum_threshold_def)
  have n: "list_all (\<lambda>v. bump5 ! 2 ! 2 \<ge> v) (neighbours26 flat5 bump5 flat5 2 2)"
    by (simp add: neighbours26_def window9_def flat5_def bump5_def)
  have c: "bump5 ! 2 ! 2 = 9" by (simp add: bump5_def)
  have "isPixelAnExtremum
           (slice2 flat5 (int 2 - 1) (int 2 + 2) (int 2 - 1) (int 2 + 2))
           (slice2 bump5 (int 2 - 1) (int 2 + 2) (int 2 - 1) (int 2 + 2))
           (slice2 flat5 (int 2 - 1) (int 2 + 2) (int 2 - 1) (int 2 + 2))
           (extremum_threshold 0.04 3) = Inr True"
    using isPixelAnExtremum_iff [of 2 bump5 2 flat5 flat5 "0.04" 3] n
    by (simp add: c flat5_def bump5_def)
  with thr n c show ?thesis by simp
qed

subsection \<open>The number of octaves\<close>

lemma np_round_between:
  assumes "of_int n - 1 / 2 < x" "x < of_int n + 1 / 2"
  shows "np_round x = n"
proof (cases "of_int n \<le> x")
  case True
  then have f: "\<lfloor>x\<rfloor> = n" using assms by (intro floor_unique) linarith+
  show ?thesis using assms True by (simp add: np_round_def f Let_def)
next
  case False
  then have f: "\<lfloor>x\<rfloor> = n - 1" using assms by (intro floor_unique) (simp, linarith)+
  show ?thesis using assms False by (simp add: np_round_def f Let_def)
qed

lemma np_round_near: "\<bar>of_int (np_round x) - x\<bar> \<le> 1 / 2"
proof -
  have "of_int \<lfloor>x\<rfloor> \<le> x" "x < of_int \<lfloor>x\<rfloor> + 1" by linarith+
  then show ?thesis
    by (auto simp add: np_round_def Let_def)
qed

lemma np_round_0: "np_round 0 = 0"
  by (simp add: np_round_def)

text \<open>
  A square image of side \<open>m\<close> gets \<open>k\<close> octaves when \<open>m\<close> lies strictly between
  \<open>2 ^ (k + 1/2)\<close> and \<open>2 ^ (k + 3/2)\<close>, stated on the squares.
\<close>

lemma octaves_from_squares:
  assumes "2 ^ (2 * k + 1) < m ^ 2" "m ^ 2 < 2 ^ (2 * k + 3)"
  shows "computeNumberOfOctaves (m, m) = Inr (int k)"
proof -
  have mpos: "0 < m" using assms(1) by (cases m) simp_all
  have l2: "0 < ln (2::real)" by simp
  have sq: "ln ((real m) ^ 2) = 2 * ln (real m)" using mpos by (simp add: ln_realpow)
  have p1: "ln ((2::real) ^ (2 * k + 1)) = real (2 * k + 1) * ln 2" by (rule ln_realpow)
  have p3: "ln ((2::real) ^ (2 * k + 3)) = real (2 * k + 3) * ln 2" by (rule ln_realpow)
  have "real (2 ^ (2 * k + 1)) < real (m ^ 2)" using assms(1) by (rule less_imp_of_nat_less)
  then have "(2::real) ^ (2 * k + 1) < (real m) ^ 2" by (simp only: of_nat_power of_nat_numeral)
  moreover have "(0::real) < 2 ^ (2 * k + 1)" by (rule zero_less_power) simp
  ultimately have "ln ((2::real) ^ (2 * k + 1)) < ln ((real m) ^ 2)"
    by (rule ln_less_cancel_iff [THEN iffD2, rotated -1]) (use mpos in simp)
  then have lo: "real (2 * k + 1) * ln 2 < 2 * ln (real m)"
    unfolding p1 sq .
  have "real (m ^ 2) < real (2 ^ (2 * k + 3))" using assms(2) by (rule less_imp_of_nat_less)
  then have "(real m) ^ 2 < (2::real) ^ (2 * k + 3)" by (simp only: of_nat_power of_nat_numeral)
  moreover have "(0::real) < (real m) ^ 2" using mpos by simp
  ultimately have "ln ((real m) ^ 2) < ln ((2::real) ^ (2 * k + 3))"
    by (rule ln_less_cancel_iff [THEN iffD2, rotated -1]) (rule zero_less_power, simp)
  then have hi: "2 * ln (real m) < real (2 * k + 3) * ln 2"
    unfolding p3 sq .
  have lo': "real k + 1 / 2 < ln (real m) / ln 2"
    using lo l2 by (simp add: pos_less_divide_eq algebra_simps)
  have hi': "ln (real m) / ln 2 < real k + 3 / 2"
    using hi l2 by (simp add: pos_divide_less_eq algebra_simps)
  have "np_round (ln (real m) / ln 2 - 1) = int k"
    using lo' hi' by (intro np_round_between) simp_all
  then show ?thesis using mpos by (simp add: computeNumberOfOctaves_def)
qed

lemma octaves_6: "computeNumberOfOctaves (6, 6) = Inr 2"
  using octaves_from_squares [of 2 6] by simp

lemma octaves_24: "computeNumberOfOctaves (24, 24) = Inr 4"
  using octaves_from_squares [of 4 24] by simp

lemma octaves_46: "computeNumberOfOctaves (46, 46) = Inr 5"
  using octaves_from_squares [of 5 46] by simp

lemma spec_octaves_3: "spec_octave_count 3 3 = 0"
proof -
  have "1 \<le> log 2 (3::real)" by (subst le_log_iff) simp_all
  moreover have "log 2 (3::real) < 2" by (subst log_less_iff) simp_all
  ultimately show ?thesis unfolding spec_octave_count_def by (intro floor_unique) simp_all
qed

lemma spec_octaves_6: "spec_octave_count 6 6 = 1"
proof -
  have "2 \<le> log 2 (6::real)" by (subst le_log_iff) simp_all
  moreover have "log 2 (6::real) < 3" by (subst log_less_iff) simp_all
  ultimately show ?thesis unfolding spec_octave_count_def by (intro floor_unique) simp_all
qed

text \<open>
  Claim C4 fails. A 3x3 input has a 6x6 base image, for which the code computes 2
  octaves; the formula of the claim gives 0 on the input's side and 1 on the base
  image's. And a 23x23 input has a 46x46 base image and 5 octaves, the last of side
  \<open>46 div 2 ^ 4 = 2\<close>.
\<close>

theorem computeNumberOfOctaves_is_not_floor:
  "computeNumberOfOctaves (2 * 3, 2 * 3) \<noteq> Inr (spec_octave_count 3 3)
   \<and> computeNumberOfOctaves (6, 6) \<noteq> Inr (spec_octave_count 6 6)
   \<and> computeNumberOfOctaves (2 * 23, 2 * 23) = Inr 5 \<and> (2 * 23) div 2 ^ 4 = (2::nat)"
  using octaves_6 octaves_46 by (simp add: spec_octaves_3 spec_octaves_6)

text \<open>
  Claim C4, amended. For every shape with no side of length 0, the octave count is an
  integer within 1/2 of \<open>log2(min(height, width)) - 1\<close>: the logarithm is rounded to
  the nearest integer, not down. (\<open>computeKeypointsAndDescriptors\<close> passes the shape of
  the base image, which is the input doubled.)
\<close>

theorem computeNumberOfOctaves_rounds_to_nearest:
  assumes "0 < min r c"
  shows "\<exists>n. computeNumberOfOctaves (r, c) = Inr n \<and>
             \<bar>of_int n - (log 2 (real (min r c)) - 1)\<bar> \<le> 1 / 2"
  using assms np_round_near [of "ln (real (min r c)) / ln 2 - 1"]
  by (simp add: computeNumberOfOctaves_def log_def Let_def)

theorem computeNumberOfOctaves_rounds_to_nearest_witness:
  "0 < min (6::nat) 6 \<and>
   (\<exists>n. computeNumberOfOctaves (6, 6) = Inr n \<and> \<bar>of_int n - (log 2 (real (min 6 6)) - 1)\<bar> \<le> 1 / 2)"
  using computeNumberOfOctaves_rounds_to_nearest [of 6 6] by simp

subsection \<open>Inputs too small for an octave\<close>

lemma octaves_of_side_2:
  assumes "min r c = 2"
  shows "computeNumberOfOctaves (r, c) = Inr 0"
  using assms by (simp add: computeNumberOfOctaves_def np_round_0)

lemma kernels_returned:
  assumes "0 < num_intervals"
  shows "\<exists>ks. generateGaussianKernels sigma num_intervals = Inr ks"
  using assms by (simp add: generateGaussianKernels_def Let_def)

lemma no_octaves_no_images: "generateGaussianImages cv base_image 0 kernels = Inr []"
  by (simp add: generateGaussianImages_def py_range_def)

lemma no_images_no_dogs: "generateDoGImages [] = Inr []"
  by (simp add: generateDoGImages_def)

lemma no_dogs_no_keypoints:
  assumes "num_intervals \<noteq> 0"
  shows "findScaleSpaceExtrema cv gaussian_images [] num_intervals sigma border ct = Inr []"
  using assms by (simp add: findScaleSpaceExtrema_def enumerate_py_def)

lemma no_keypoints_no_descriptors: "generateDescriptors [] gaussian_images w n s d = Inr []"
  by (simp add: generateDescriptors_def)

text \<open>
  Claim C3 fails. A 12x12 input is smaller than \<open>2 * 5 + 3\<close>; its base image is 24x24,
  and the code computes 4 octaves for it, not zero.
\<close>

theorem small_input_has_octaves:
  "(12::nat) < 2 * 5 + 3 \<and> computeNumberOfOctaves (2 * 12, 2 * 12) = Inr 4"
  using octaves_24 by simp

text \<open>
  Claim C3, amended. Let the collaborators double the input and keep its size when they
  blur it, and let \<open>num_intervals\<close> be positive. For every input whose shorter side is
  1 the code computes zero octaves, and \<open>computeKeypointsAndDescriptors\<close> returns no
  keypoint and no descriptor, and raises nothing.
\<close>

theorem one_pixel_side_gives_empty_output:
  assumes "resize_by cv img 2 2 = Inr doubled"
    and "shape doubled = (2 * fst (shape img), 2 * snd (shape img))"
    and "GaussianBlur cv doubled (sqrt (max (sigma ^ 2 - (2 * assumed_blur) ^ 2) (1 / 100)))
           = Inr base_image"
    and "shape base_image = shape doubled"
    and "min (fst (shape img)) (snd (shape img)) = 1"
    and "0 < num_intervals"
  shows "generateBaseImage cv img sigma assumed_blur = Inr base_image
       \<and> computeNumberOfOctaves (shape base_image) = Inr 0
       \<and> computeKeypointsAndDescriptors cv img sigma num_intervals assumed_blur image_border_width
           = Inr ([], [])"
proof -
  have base: "generateBaseImage cv img sigma assumed_blur = Inr base_image"
    using assms(1,3) by (simp add: generateBaseImage_def)
  have "min (2 * fst (shape img)) (2 * snd (shape img)) = 2"
    using assms(5) by (simp add: min_def split: if_splits)
  then have oct: "computeNumberOfOctaves (shape base_image) = Inr 0"
    using assms(2,4) by (simp add: octaves_of_side_2)
  obtain ks where ks: "generateGaussianKernels sigma num_intervals = Inr ks"
    using kernels_returned [OF assms(6)] by blast
  have "computeKeypointsAndDescriptors cv img sigma num_intervals assumed_blur image_border_width
           = Inr ([], [])"
    using assms(6)
    by (simp add: computeKeypointsAndDescriptors_def base oct ks bind_err_Inr
        no_octaves_no_images no_images_no_dogs no_dogs_no_keypoints
        removeDuplicateKeypoints_def convertKeypointsToInputImageSize_def
        no_keypoints_no_descriptors)
  with base oct show ?thesis by simp
qed

theorem one_pixel_side_gives_empty_output_witness:
  "computeNumberOfOctaves (2, 6) = Inr 0
   \<and> computeKeypointsAndDescriptors replicating_collaborators [[7, 8, 9]] 1.6 3 0.5 5 = Inr ([], [])"
proof -
  have r: "resize_by replicating_collaborators [[7, 8, 9]] 2 2
             = Inr [[7, 7, 8, 8, 9, 9], [7, 7, 8, 8, 9, 9]]"
    by (simp add: replicating_collaborators_def Let_def)
  have b: "GaussianBlur replicating_collaborators [[7, 7, 8, 8, 9, 9], [7, 7, 8, 8, 9, 9]]
             (sqrt (max (1.6 ^ 2 - (2 * 0.5) ^ 2) (1 / 100)))
             = Inr [[7, 7, 8, 8, 9, 9], [7, 7, 8, 8, 9, 9]]"
    by (simp add: replicating_collaborators_def)
  have s: "shape [[7, 7, 8, 8, 9, 9], [7, 7, 8, 8, 9, 9::real]] = (2, 6)"
          "shape [[7, 8, 9::real]] = (1, 3)"
    by (simp_all add: shape_def)
  show ?thesis
    using one_pixel_side_gives_empty_output [OF r _ b, of 3 5] s by simp
qed

subsection \<open>Keypoint scale conversion\<close>

lemma and_255_mod: "(x::int) AND 255 = x mod 256"
  using take_bit_eq_mask[of 8 x] by (simp add: take_bit_eq_mod mask_eq_exp_minus_1)

lemma low_byte_decrement:
  "((x AND NOT 255) OR ((x - 1) AND 255)) AND 255 = ((x AND 255) - 1) mod (256::int)"
proof -
  have m: "(255::int) = mask 8" by (simp add: mask_eq_exp_minus_1)
  have "((x AND NOT 255) OR ((x - 1) AND 255)) AND 255 = (x - 1) AND 255"
    unfolding m by (rule bit_eqI) (auto simp add: bit_simps)
  also have "\<dots> = (x - 1) mod 256" by (rule and_255_mod)
  also have "\<dots> = ((x mod 256) - 1) mod 256" by (simp add: mod_diff_left_eq)
  finally show ?thesis by (simp add: and_255_mod)
qed

lemma convert_keypoint_octave_low:
  "octave (convert_keypoint k) AND 255 = ((octave k AND 255) - 1) mod 256"
  unfolding convert_keypoint_def using low_byte_decrement[of "octave k"] by simp

lemma convert_keypoint_octave_high:
  "drop_bit 8 (octave (convert_keypoint k)) = drop_bit 8 (octave k)"
  by (simp add: convert_keypoint_def)

lemma convert_keypoint_octave_high16:
  "drop_bit 16 (octave (convert_keypoint k)) = drop_bit 16 (octave k)"
  by (simp add: convert_keypoint_def)

lemma convert_keypoint_pt: "pt (convert_keypoint k) = (fst (pt k) / 2, snd (pt k) / 2)"
  by (simp add: convert_keypoint_def)

lemma convert_keypoint_size: "size_kp (convert_keypoint k) = size_kp k / 2"
  by (simp add: convert_keypoint_def)

lemma convert_keypoint_frame:
  "angle (convert_keypoint k) = angle k"
  "response (convert_keypoint k) = response k"
  "class_id (convert_keypoint k) = class_id k"
  by (simp_all add: convert_keypoint_def)

text \<open>
  Claim C6. For every list of keypoints, \<open>convertKeypointsToInputImageSize\<close> turns the
  low byte of each packed octave \<open>O\<close> into \<open>((O AND 255) - 1) mod 256\<close>, leaves the layer
  byte (bits 8 to 15) and the sub-layer byte (bits 16 to 23) as they were, and halves
  both coordinates of the position and the size. (Over the reals; in \<^verbatim>\<open>float32\<close>
  halving is exact too, short of underflow.)
\<close>

theorem convertKeypointsToInputImageSize_octave_pt_size:
  "map (\<lambda>k. octave k AND 255) (convertKeypointsToInputImageSize keypoints)
     = map (\<lambda>k. ((octave k AND 255) - 1) mod 256) keypoints
   \<and> map (\<lambda>k. drop_bit 8 (octave k) AND 255) (convertKeypointsToInputImageSize keypoints)
     = map (\<lambda>k. drop_bit 8 (octave k) AND 255) keypoints
   \<and> map (\<lambda>k. drop_bit 16 (octave k) AND 255) (convertKeypointsToInputImageSize keypoints)
     = map (\<lambda>k. drop_bit 16 (octave k) AND 255) keypoints
   \<and> map pt (convertKeypointsToInputImageSize keypoints)
     = map (\<lambda>k. (fst (pt k) / 2, snd (pt k) / 2)) keypoints
   \<and> map size_kp (convertKeypointsToInputImageSize keypoints)
     = map (\<lambda>k. size_kp k / 2) keypoints"
  unfolding convertKeypointsToInputImageSize_def map_map comp_def
    convert_keypoint_octave_low convert_keypoint_octave_high convert_keypoint_octave_high16
    convert_keypoint_pt convert_keypoint_size
  by (intro conjI refl)

text \<open>
  Claim C10. For every list of keypoints, \<open>convertKeypointsToInputImageSize\<close> keeps the
  angle and the response of each keypoint (and its class id, every bit of the packed
  octave above the low byte, and the number and order of the keypoints): only the
  position, the size and the low byte of the packed octave change.
\<close>

theorem convertKeypointsToInputImageSize_frame:
  "map angle (convertKeypointsToInputImageSize keypoints) = map angle keypoints
   \<and> map response (convertKeypointsToInputImageSize keypoints) = map response keypoints
   \<and> map class_id (convertKeypointsToInputImageSize keypoints) = map class_id keypoints
   \<and> map (\<lambda>k. drop_bit 8 (octave k)) (convertKeypointsToInputImageSize keypoints)
     = map (\<lambda>k. drop_bit 8 (octave k)) keypoints
   \<and> length (convertKeypointsToInputImageSize keypoints) = length keypoints"
  unfolding convertKeypointsToInputImageSize_def map_map comp_def length_map
    convert_keypoint_octave_high convert_keypoint_frame
  by (intro conjI refl)

subsection \<open>Duplicate keypoint removal\<close>

lemma compareKeypoints_less_iff:
  "compareKeypoints a b < 0 \<longleftrightarrow> comparator_key a < comparator_key b"
  by (auto simp add: compareKeypoints_def comparator_key_def)

lemma compareKeypoints_le_iff:
  "compareKeypoints a b \<le> 0 \<longleftrightarrow> comparator_key a \<le> comparator_key b"
  by (auto simp add: compareKeypoints_def comparator_key_def)

lemma insort_cmp_is_insort_key:
  "insort_cmp compareKeypoints x ys = insort_key comparator_key x ys"
  by (induction ys) (auto simp add: compareKeypoints_less_iff)

lemma sort_cmp_is_sort_key: "sort_cmp compareKeypoints xs = sort_key comparator_key xs"
proof -
  have "insort_cmp compareKeypoints = insort_key comparator_key"
    by (intro ext) (rule insort_cmp_is_insort_key)
  then show ?thesis by (simp add: sort_cmp_def sort_key_def)
qed

lemma unique_walk_dedup_from:
  "acc \<noteq> [] \<Longrightarrow> unique_walk acc xs = acc @ dedup_from (last acc) xs"
  by (induction xs arbitrary: acc) simp_all

lemma dedup_from_sorted:
  "sorted (map comparator_key (l # xs)) \<Longrightarrow> sorted (map comparator_key (l # dedup_from l xs))"
proof (induction xs arbitrary: l)
  case Nil
  then show ?case by simp
next
  case (Cons x xs)
  show ?case
  proof (cases "differs l x")
    case True
    have "sorted (map comparator_key (x # xs))" using Cons.prems by simp
    then have "sorted (map comparator_key (x # dedup_from x xs))" by (rule Cons.IH)
    moreover have "comparator_key l \<le> comparator_key x" using Cons.prems by simp
    ultimately show ?thesis using True by (simp del: sorted_wrt.simps add: sorted2)
  next
    case False
    have "sorted (map comparator_key (l # xs))" using Cons.prems by auto
    then have "sorted (map comparator_key (l # dedup_from l xs))" by (rule Cons.IH)
    then show ?thesis using False by simp
  qed
qed

lemma dedup_from_successively: "successively differs (l # dedup_from l xs)"
  by (induction xs arbitrary: l) simp_all

lemma dedup_from_id: "successively differs (l # xs) \<Longrightarrow> dedup_from l xs = xs"
  by (induction xs arbitrary: l) simp_all

lemma removeDuplicateKeypoints_long:
  assumes "2 \<le> length keypoints"
  shows "\<exists>f rest. sort_key comparator_key keypoints = f # rest \<and>
           removeDuplicateKeypoints keypoints = f # dedup_from f rest"
proof -
  have "sort_key comparator_key keypoints \<noteq> []"
    using assms by (metis length_sort list.size(3) not_numeral_le_zero)
  then obtain f rest where fr: "sort_key comparator_key keypoints = f # rest"
    by (cases "sort_key comparator_key keypoints") auto
  then show ?thesis
    using assms by (simp add: removeDuplicateKeypoints_def sort_cmp_is_sort_key unique_walk_dedup_from)
qed

lemma removeDuplicateKeypoints_sorted:
  "sorted (map comparator_key keypoints) \<or> 2 \<le> length keypoints \<Longrightarrow>
   sorted (map comparator_key (removeDuplicateKeypoints keypoints))"
proof (cases "2 \<le> length keypoints")
  case True
  then obtain f rest where fr: "sort_key comparator_key keypoints = f # rest"
    "removeDuplicateKeypoints keypoints = f # dedup_from f rest"
    using removeDuplicateKeypoints_long by blast
  have "sorted (map comparator_key (sort_key comparator_key keypoints))" by (rule sorted_sort_key)
  then show ?thesis using fr dedup_from_sorted by simp
next
  case False
  assume "sorted (map comparator_key keypoints) \<or> 2 \<le> length keypoints"
  with False show ?thesis by (simp add: removeDuplicateKeypoints_def)
qed

lemma short_sorted: "length (xs::keypoint list) < 2 \<Longrightarrow> sorted (map comparator_key xs)"
  by (cases xs; cases "tl xs") auto

lemma short_successively: "length (xs::keypoint list) < 2 \<Longrightarrow> successively differs xs"
  by (cases xs; cases "tl xs") auto

lemma removeDuplicateKeypoints_sorted_key:
  "sorted (map comparator_key (removeDuplicateKeypoints keypoints))"
proof (cases "2 \<le> length keypoints")
  case True
  then show ?thesis by (simp add: removeDuplicateKeypoints_sorted)
next
  case False
  then show ?thesis by (simp add: removeDuplicateKeypoints_def short_sorted)
qed

lemma removeDuplicateKeypoints_successively:
  "successively differs (removeDuplicateKeypoints keypoints)"
proof (cases "2 \<le> length keypoints")
  case True
  then obtain f rest where fr: "removeDuplicateKeypoints keypoints = f # dedup_from f rest"
    using removeDuplicateKeypoints_long by blast
  then show ?thesis by (simp add: dedup_from_successively)
next
  case False
  then show ?thesis by (simp add: removeDuplicateKeypoints_def short_successively)
qed

lemma removeDuplicateKeypoints_fixpoint:
  assumes "sorted (map comparator_key xs)" "successively differs xs"
  shows "removeDuplicateKeypoints xs = xs"
proof (cases "2 \<le> length xs")
  case True
  then obtain f rest where fr: "sort_key comparator_key xs = f # rest"
    "removeDuplicateKeypoints xs = f # dedup_from f rest"
    using removeDuplicateKeypoints_long by blast
  have "sort_key comparator_key xs = xs" using assms(1) by (rule sort_key_id_if_sorted)
  with fr have xs: "xs = f # rest" by simp
  then have "dedup_from f rest = rest" using assms(2) by (simp add: dedup_from_id)
  with fr xs show ?thesis by simp
next
  case False
  then show ?thesis by (simp add: removeDuplicateKeypoints_def)
qed

text \<open>
  Claim C9. For every list of keypoints, removing the duplicates twice gives what
  removing them once gives: the result is sorted by the comparator (for two keypoints
  in this order the comparator is never positive), two consecutive keypoints of it
  differ in x, y, size or angle, and on such a list the function changes nothing.
  (Python's stable sort is the stable insertion sort here; coordinates are real
  numbers, so no keypoint holds a NaN.)
\<close>

theorem removeDuplicateKeypoints_idempotent:
  "removeDuplicateKeypoints (removeDuplicateKeypoints keypoints) = removeDuplicateKeypoints keypoints
   \<and> sorted_wrt (\<lambda>a b. compareKeypoints a b \<le> 0) (removeDuplicateKeypoints keypoints)
   \<and> successively differs (removeDuplicateKeypoints keypoints)"
proof -
  have s: "sorted (map comparator_key (removeDuplicateKeypoints keypoints))"
    by (rule removeDuplicateKeypoints_sorted_key)
  have d: "successively differs (removeDuplicateKeypoints keypoints)"
    by (rule removeDuplicateKeypoints_successively)
  have "sorted_wrt (\<lambda>a b. compareKeypoints a b \<le> 0) (removeDuplicateKeypoints keypoints)"
    using s by (simp add: sorted_map compareKeypoints_le_iff)
  with s d show ?thesis by (simp add: removeDuplicateKeypoints_fixpoint)
qed

lemma sort_abc: "sort_cmp compareKeypoints [kp_a, kp_b, kp_c] = [kp_b, kp_c, kp_a]"
  by (simp add: sort_cmp_def compareKeypoints_def kp_a_def kp_b_def kp_c_def KeyPoint_def)

lemma dedup_abc: "removeDuplicateKeypoints [kp_a, kp_b, kp_c] = [kp_b, kp_c]"
  by (simp add: removeDuplicateKeypoints_def sort_abc)
     (simp add: differs_def kp_a_def kp_b_def kp_c_def KeyPoint_def)

theorem removeDuplicateKeypoints_idempotent_witness:
  "removeDuplicateKeypoints [kp_a, kp_b, kp_c] = [kp_b, kp_c]
   \<and> removeDuplicateKeypoints [kp_b, kp_c] = [kp_b, kp_c]
   \<and> compareKeypoints kp_b kp_c \<le> 0
   \<and> differs kp_b kp_c"
  using removeDuplicateKeypoints_idempotent [of "[kp_a, kp_b, kp_c]"] by (simp add: dedup_abc)

subsection \<open>Denominators of the peak interpolation and of the normalisation\<close>

lemma map_err_length: "map_err f xs = Inr ys \<Longrightarrow> length ys = length xs"
  by (induction xs arbitrary: ys) (auto split: sum.splits)

lemma py_range_length: "length (py_range 0 n) = nat n"
  by (simp add: py_range_def)

lemma smooth_histogram_length:
  "smooth_histogram_of raw num_bins = Inr h \<Longrightarrow> length h = nat num_bins"
  by (simp add: smooth_histogram_of_def map_err_length py_range_length)

lemma float_mod_range:
  assumes "0 < m"
  shows "0 \<le> float_mod x m" "float_mod x m < m"
proof -
  have "of_int \<lfloor>x / m\<rfloor> * m \<le> x"
    using assms of_int_floor_le [of "x / m"] pos_le_divide_eq [of m "of_int \<lfloor>x / m\<rfloor>" x]
    by blast
  moreover have "x < (of_int \<lfloor>x / m\<rfloor> + 1) * m"
    using assms real_of_int_floor_add_one_gt [of "x / m"]
      pos_divide_less_eq [of m x "of_int \<lfloor>x / m\<rfloor> + 1"]
    by blast
  ultimately show "0 \<le> float_mod x m" "float_mod x m < m"
    by (simp_all add: float_mod_def algebra_simps)
qed

lemma py_get_nat: "k < length xs \<Longrightarrow> py_get xs (int k) = Inr (xs ! k)"
  by (simp add: py_get_def py_index_def)

lemma normalization_denominator_floor:
  "float_tolerance \<le> normalization_denominator v" "0 < normalization_denominator v"
  by (simp_all add: normalization_denominator_def float_tolerance_def max_def)

lemma parabola_at_peak:
  assumes "length h = nat num_bins" "p \<in> set (orientation_peaks h)"
  shows "\<exists>d orientation.
           peak_denominator h num_bins (int p) = Inr d \<and> d < 0 \<and>
           \<bar>0.5 * (h ! ((p + length h - 1) mod length h) - h ! ((p + 1) mod length h)) / d\<bar> \<le> 1 / 2 \<and>
           peak_orientation h num_bins (int p) = Inr orientation \<and>
           0 \<le> orientation \<and> orientation < 360"
proof -
  define N where "N = length h"
  have p: "p < N" and peak: "is_peak h p"
    using assms(2) by (simp_all add: orientation_peaks_def N_def)
  have Npos: "0 < N" using p by simp
  have nb: "num_bins = int N" using assms(1) Npos by (simp add: N_def)
  define l where "l = h ! ((p + N - 1) mod N)"
  define r where "r = h ! ((p + 1) mod N)"
  define v where "v = h ! p"
  have lv: "l < v" and rv: "r < v"
    using peak by (simp_all add: is_peak_def l_def r_def v_def N_def)
  have il: "(int p - 1) mod int N = int ((p + N - 1) mod N)"
  proof -
    have "(int p - 1) mod int N = (int p - 1 + int N) mod int N" by simp
    also have "int p - 1 + int N = int (p + N - 1)" using Npos by simp
    finally show ?thesis by (simp add: zmod_int)
  qed
  have ir: "(int p + 1) mod int N = int ((p + 1) mod N)"
    by (simp only: zmod_int of_nat_add of_nat_1)
  have gl: "py_get h ((int p - 1) mod num_bins) = Inr l"
  proof -
    have "(p + N - 1) mod N < length h" using Npos by (simp add: N_def)
    then have "py_get h (int ((p + N - 1) mod N)) = Inr (h ! ((p + N - 1) mod N))"
      by (rule py_get_nat)
    then show ?thesis by (simp only: nb il l_def)
  qed
  have gr: "py_get h ((int p + 1) mod num_bins) = Inr r"
  proof -
    have "(p + 1) mod N < length h" using Npos by (simp add: N_def)
    then have "py_get h (int ((p + 1) mod N)) = Inr (h ! ((p + 1) mod N))"
      by (rule py_get_nat)
    then show ?thesis by (simp only: nb ir r_def)
  qed
  have gv: "py_get h (int p) = Inr v"
    using p by (simp add: v_def py_get_nat N_def)
  define d where "d = l - 2 * v + r"
  have den: "peak_denominator h num_bins (int p) = Inr d"
    by (simp add: peak_denominator_def bind_err_def gl gr gv d_def)
  have dneg: "d < 0" using lv rv by (simp add: d_def)
  have "\<bar>l - r\<bar> \<le> \<bar>d\<bar>" using lv rv by (simp add: d_def abs_if)
  then have "\<bar>(l - r) / d\<bar> \<le> 1" using dneg by (simp add: abs_if divide_simps split: if_splits)
  then have off: "\<bar>0.5 * (l - r) / d\<bar> \<le> 1 / 2" by (simp add: abs_mult)
  define x where "x = float_mod (of_int (int p) + 0.5 * (l - r) / d) (of_int num_bins)"
  have nbpos: "0 < (of_int num_bins :: real)" using Npos nb by simp
  have x0: "0 \<le> x" and xN: "x < of_int num_bins"
    using float_mod_range [OF nbpos] by (simp_all add: x_def)
  define o1 where "o1 = 360 - x * 360 / of_int num_bins"
  have "x * 360 / of_int num_bins < 360"
    using xN nbpos by (simp add: pos_divide_less_eq)
  then have o1pos: "0 < o1" by (simp add: o1_def)
  have "0 \<le> x * 360 / of_int num_bins" using x0 nbpos by simp
  then have o1le: "o1 \<le> 360" by (simp add: o1_def)
  define orientation where "orientation = (if \<bar>o1 - 360\<bar> < float_tolerance then 0 else o1)"
  have tol: "0 < float_tolerance" by (simp add: float_tolerance_def)
  have "0 \<le> orientation \<and> orientation < 360"
    using o1pos o1le tol by (auto simp add: orientation_def)
  moreover have "peak_orientation h num_bins (int p) = Inr orientation"
    by (simp add: peak_orientation_def bind_err_def gl gr den orientation_def o1_def x_def Let_def)
  ultimately show ?thesis
    using den dneg off by (simp add: l_def r_def N_def)
qed

lemma np_round_of_int: "np_round (of_int n) = n"
  by (simp add: np_round_def)

lemma np_round_1: "np_round 1 = 1"
  using np_round_of_int [of 1] by simp

lemma np_round_small: "np_round (9 / 40) = 0"
  by (rule np_round_between) simp_all

lemma sample_right_edge:
  assumes "0 < x" "length raw = 36"
  shows "orientation_sample [[0, 0, 0], [0, 0, x], [0, 0, 0]] scale 36 1 1 0 0 raw
           = Inr (raw[0 := raw ! 0 + x])"
proof -
  have "sqrt (x * x) = x" using assms(1) by simp
  moreover have "arctan2 0 x = 0" using assms(1) by (simp add: arctan2_def)
  ultimately show ?thesis
    using assms
    by (simp add: orientation_sample_def bind_err_def get2_def py_get_def py_index_def
        rad2deg_def np_round_0 Let_def)
qed

lemma faint_scale: "1.5 * size_kp faint_keypoint / pow2 (0 + 1) = 3 / 40"
  by (simp add: faint_keypoint_def pow2_def)

lemma faint_radius: "np_round (3 * (3 / 40)) = 0"
  using np_round_small by simp

lemma zeros36:
  "replicate 36 (0::real) =
     [0, 0, 0, 0, 0, 0, 0, 0, 0, 0, 0, 0, 0, 0, 0, 0, 0, 0,
      0, 0, 0, 0, 0, 0, 0, 0, 0, 0, 0, 0, 0, 0, 0, 0, 0, 0]"
  by (simp add: numeral_eq_Suc)

lemma shape_faint_image: "shape faint_image = (3, 3)"
  by (simp add: shape_def faint_image_def)

lemma faint_histogram_eval:
  "orientation_histogram faint_keypoint 0 faint_image (3 / 40) 0 36 = Inr faint_histogram"
proof -
  have "orientation_sample faint_image (3 / 40) 36 1 1 0 0
          [0, 0, 0, 0, 0, 0, 0, 0, 0, 0, 0, 0, 0, 0, 0, 0, 0, 0,
           0, 0, 0, 0, 0, 0, 0, 0, 0, 0, 0, 0, 0, 0, 0, 0, 0, 0] = Inr faint_histogram"
    unfolding faint_image_def
    by (subst sample_right_edge) (simp_all add: faint_histogram_def)
  then show ?thesis
    by (simp add: orientation_histogram_def py_range_def faint_keypoint_def pow2_def np_round_1
        shape_faint_image zeros36 Let_def)
qed


lemma range_0_36:
  "py_range 0 36 = [0, 1, 2, 3, 4, 5, 6, 7, 8, 9, 10, 11, 12, 13, 14, 15, 16, 17,
                    18, 19, 20, 21, 22, 23, 24, 25, 26, 27, 28, 29, 30, 31, 32, 33, 34, 35]"
  by (simp add: py_range_def upto_rec1)

lemma faint_smooth_eval: "smooth_histogram_of faint_histogram 36 = Inr faint_smooth"
  by (simp add: smooth_histogram_of_def range_0_36 smooth_bin_def bind_err_def py_get_def
      py_index_def faint_histogram_def faint_smooth_def)

lemma faint_peaks: "orientation_peaks faint_smooth = [0]"
  by (simp add: orientation_peaks_def is_peak_def faint_smooth_def)

lemma faint_denominator: "peak_denominator faint_smooth 36 0 = Inr (- (1 / (4 * 10 ^ 9)))"
  by (simp add: peak_denominator_def bind_err_def py_get_def py_index_def faint_smooth_def)

lemma faint_below_tolerance: "\<bar>- (1 / (4 * 10 ^ 9)) :: real\<bar> < float_tolerance"
  by (simp add: float_tolerance_def)

lemma faint_max: "Max (set faint_smooth) = 6 / (16 * 10 ^ 9)"
  by (simp add: faint_smooth_def)

lemma faint_neighbours:
  "py_get faint_smooth 35 = Inr (4 / (16 * 10 ^ 9))"
  "py_get faint_smooth 1 = Inr (4 / (16 * 10 ^ 9))"
  "py_get faint_smooth 0 = Inr (6 / (16 * 10 ^ 9))"
  by (simp_all add: py_get_def py_index_def faint_smooth_def)

lemma faint_orientation: "peak_orientation faint_smooth 36 0 = Inr 0"
  by (simp add: peak_orientation_def faint_denominator faint_neighbours bind_err_def
      float_mod_def float_tolerance_def)

lemma pow2_1: "pow2 1 = 2"
  by (simp add: pow2_def)

lemma faint_fields:
  "size_kp faint_keypoint = 1 / 10" "pt faint_keypoint = (1, 1)"
  by (simp_all add: faint_keypoint_def)

lemma faint_keypoints:
  "computeKeypointsWithOrientations faint_keypoint 0 faint_image 3 36 0.8 1.5
     = Inr [faint_keypoint\<lparr>angle := 0\<rparr>]"
proof -
  have ne: "faint_smooth \<noteq> []" by (simp add: faint_smooth_def)
  have k: "KeyPoint\<lparr>pt := (1, 1), size_kp := 1 / 10, angle := 0,
              response := response faint_keypoint, octave := octave faint_keypoint\<rparr>
           = faint_keypoint\<lparr>angle := 0\<rparr>"
    by (simp add: faint_keypoint_def KeyPoint_def)
  show ?thesis
    by (simp add: computeKeypointsWithOrientations_def pow2_1 faint_fields np_round_small
        faint_histogram_eval faint_smooth_eval bind_err_Inr ne faint_peaks faint_max
        faint_neighbours faint_orientation k Let_def)
qed

text \<open>
  Claim C8 fails where it says that every denominator is floored by a small epsilon.
  For the faint image the code returns a keypoint whose orientation was interpolated
  with a denominator of absolute value \<open>2.5e-10\<close>, below \<open>float_tolerance\<close>, the
  only epsilon of the module.
\<close>

theorem parabola_denominator_below_tolerance:
  "computeKeypointsWithOrientations faint_keypoint 0 faint_image 3 36 0.8 1.5
     = Inr [faint_keypoint\<lparr>angle := 0\<rparr>]
   \<and> orientation_histogram faint_keypoint 0 faint_image (3 / 40) 0 36 = Inr faint_histogram
   \<and> smooth_histogram_of faint_histogram 36 = Inr faint_smooth
   \<and> orientation_peaks faint_smooth = [0]
   \<and> peak_denominator faint_smooth 36 0 = Inr (- (1 / (4 * 10 ^ 9)))
   \<and> \<bar>- (1 / (4 * 10 ^ 9)) :: real\<bar> < float_tolerance"
  by (simp only: faint_keypoints faint_histogram_eval faint_smooth_eval faint_peaks
      faint_denominator faint_below_tolerance simp_thms)

text \<open>
  Claim C8, amended. The descriptor normalisation divides by a number that is at least
  \<open>float_tolerance\<close>, which is positive. The parabolic interpolation has no floor: at
  every index that passes the peak test of lines 373 and 374 its denominator
  \<open>left - 2 * peak + right\<close> is negative, hence not zero, the interpolation moves the
  peak by at most half a bin, and the orientation lies in \<open>[0, 360)\<close>. (Over the reals;
  NaN and infinities are outside the model.)
\<close>

theorem denominators_never_zero:
  assumes "smooth_histogram_of raw_histogram num_bins = Inr smooth_histogram"
    and "peak_index \<in> set (orientation_peaks smooth_histogram)"
  shows "float_tolerance \<le> normalization_denominator descriptor_vector
       \<and> 0 < float_tolerance
       \<and> (\<exists>denominator orientation.
             peak_denominator smooth_histogram num_bins (int peak_index) = Inr denominator \<and>
             denominator < 0 \<and>
             \<bar>0.5 * (smooth_histogram ! ((peak_index + length smooth_histogram - 1) mod length smooth_histogram)
                     - smooth_histogram ! ((peak_index + 1) mod length smooth_histogram))
                / denominator\<bar> \<le> 1 / 2 \<and>
             peak_orientation smooth_histogram num_bins (int peak_index) = Inr orientation \<and>
             0 \<le> orientation \<and> orientation < 360)"
  using parabola_at_peak [OF smooth_histogram_length [OF assms(1)] assms(2)]
    normalization_denominator_floor(1) [of descriptor_vector]
  by (simp add: float_tolerance_def)

theorem denominators_never_zero_witness:
  "smooth_histogram_of faint_histogram 36 = Inr faint_smooth
   \<and> 0 \<in> set (orientation_peaks faint_smooth)
   \<and> float_tolerance \<le> normalization_denominator [3, 4]
   \<and> (\<exists>denominator orientation.
         peak_denominator faint_smooth 36 (int 0) = Inr denominator \<and> denominator < 0 \<and>
         peak_orientation faint_smooth 36 (int 0) = Inr orientation \<and>
         0 \<le> orientation \<and> orientation < 360)"
proof -
  have p: "0 \<in> set (orientation_peaks faint_smooth)" by (simp add: faint_peaks)
  show ?thesis
    using denominators_never_zero [OF faint_smooth_eval p, of "[3, 4]"] faint_smooth_eval p by auto
qed

subsection \<open>Descriptors\<close>

lemma list_all_update:
  "list_all P xs \<Longrightarrow> P y \<Longrightarrow> list_all P (xs[i := y])"
  by (induction xs arbitrary: i) (auto split: nat.splits)

lemma py_index_bound: "py_index n i = Inr k \<Longrightarrow> k < n"
  by (auto simp add: py_index_def Let_def split: if_splits)

lemma add3_dims:
  assumes "add3 tensor r c b v = Inr tensor'" "tensor_dims x y z tensor"
  shows "tensor_dims x y z tensor'"
proof -
  from assms(1) obtain ri ci bi where
    ri: "py_index (length tensor) r = Inr ri" and
    ci: "py_index (length (tensor ! ri)) c = Inr ci" and
    bi: "py_index (length (tensor ! ri ! ci)) b = Inr bi" and
    t': "tensor' = tensor[ri := (tensor ! ri)[ci := (tensor ! ri ! ci)[bi := tensor ! ri ! ci ! bi + v]]]"
    by (auto simp add: add3_def bind_err_def Let_def split: sum.splits)
  have rib: "ri < length tensor" using ri by (rule py_index_bound)
  have cib: "ci < length (tensor ! ri)" using ci by (rule py_index_bound)
  have plane: "length (tensor ! ri) = y \<and> list_all (\<lambda>row. length row = z) (tensor ! ri)"
    using assms(2) rib by (simp add: tensor_dims_def list_all_length)
  then have row: "length (tensor ! ri ! ci) = z" using cib by (simp add: list_all_length)
  have "list_all (\<lambda>row. length row = z) ((tensor ! ri)[ci := (tensor ! ri ! ci)[bi := tensor ! ri ! ci ! bi + v]])"
    using plane row by (intro list_all_update) simp_all
  then show ?thesis
    unfolding t' tensor_dims_def using assms(2) plane
    by (auto simp add: tensor_dims_def intro!: list_all_update)
qed

lemma splat_dims:
  assumes "splat num_bins sample tensor = Inr tensor'" "tensor_dims x y z tensor"
  shows "tensor_dims x y z tensor'"
  using assms
  by (auto simp add: splat_def bind_err_def Let_def split: prod.splits if_splits sum.splits
      dest!: add3_dims)

lemma fold_splat_dims:
  "fold_err (splat num_bins) samples tensor = Inr tensor' \<Longrightarrow> tensor_dims x y z tensor \<Longrightarrow>
   tensor_dims x y z tensor'"
proof (induction samples arbitrary: tensor)
  case Nil
  then show ?case by simp
next
  case (Cons s samples)
  then show ?case by (auto split: sum.splits dest: splat_dims)
qed


lemma zero_tensor_dims:
  "tensor_dims 6 6 8 (replicate 6 (replicate 6 (replicate 8 0)))"
  by (simp add: tensor_dims_def list_all_length)

lemma descriptor_histogram_dims:
  assumes "descriptor_histogram keypoint gaussian_images 4 8 scale_multiplier = Inr tensor"
  shows "tensor_dims 6 6 8 tensor"
proof -
  from assms obtain samples where
    "fold_err (splat 8) samples (replicate 6 (replicate 6 (replicate 8 0))) = Inr tensor"
    by (auto simp add: descriptor_histogram_def bind_err_def Let_def
        split: prod.splits sum.splits if_splits)
  then show ?thesis using zero_tensor_dims by (rule fold_splat_dims)
qed

lemma length_concat_uniform:
  "list_all (\<lambda>xs. length xs = n) xss \<Longrightarrow> length (concat xss) = length xss * n"
  by (induction xss) simp_all

lemma py_slice_inner: "length xs = 6 \<Longrightarrow> py_slice xs 1 (- 1) = take 4 (drop 1 xs)"
  by (simp add: py_slice_def slice_bound_def)

lemma list_all_take_drop: "list_all P xs \<Longrightarrow> list_all P (take n (drop k xs))"
  by (auto simp add: list_all_iff dest: in_set_takeD in_set_dropD)

lemma strip_and_flatten_length:
  assumes "tensor_dims 6 6 8 tensor"
  shows "length (strip_and_flatten tensor) = 128"
proof -
  have len: "length tensor = 6"
    and planes: "list_all (\<lambda>plane. length plane = 6 \<and> list_all (\<lambda>row. length row = 8) plane) tensor"
    using assms by (simp_all add: tensor_dims_def)
  have inner: "list_all (\<lambda>plane. length plane = 6 \<and> list_all (\<lambda>row. length row = 8) plane)
                 (take 4 (drop 1 tensor))"
    using planes by (rule list_all_take_drop)
  have "length (concat (py_slice plane 1 (- 1))) = 32"
    if "length plane = 6 \<and> list_all (\<lambda>row. length row = 8) plane" for plane :: "real list list"
  proof -
    have "list_all (\<lambda>row. length row = 8) (take 4 (drop 1 plane))"
      using that by (intro list_all_take_drop) simp
    then have "length (concat (take 4 (drop 1 plane))) = length (take 4 (drop 1 plane)) * 8"
      by (rule length_concat_uniform)
    then show ?thesis using that by (simp add: py_slice_inner)
  qed
  then have "list_all (\<lambda>xs. length xs = 32)
               (map (\<lambda>plane. concat (py_slice plane 1 (- 1))) (take 4 (drop 1 tensor)))"
    using inner by (auto simp add: list_all_iff)
  then have "length (concat (map (\<lambda>plane. concat (py_slice plane 1 (- 1))) (take 4 (drop 1 tensor))))
               = length (map (\<lambda>plane. concat (py_slice plane 1 (- 1))) (take 4 (drop 1 tensor))) * 32"
    by (rule length_concat_uniform)
  then show ?thesis using len by (simp add: strip_and_flatten_def py_slice_inner)
qed

lemma quantize_descriptor_range:
  "list_all (\<lambda>x. 0 \<le> x \<and> x \<le> 255) (quantize_descriptor v)"
  by (auto simp add: quantize_descriptor_def list_all_iff Let_def)

lemma finish_descriptor_length:
  "length (finish_descriptor descriptor_max_value tensor) = length (strip_and_flatten tensor)"
  by (simp add: finish_descriptor_def quantize_descriptor_def normalize_descriptor_def
      clip_descriptor_def Let_def)

lemma norm2_nonneg: "0 \<le> norm2 v"
  by (auto simp add: norm2_def intro!: sum_list_nonneg)

lemma sum_list_scaled_squares:
  "sum_list (map (\<lambda>x. x * x) (map (\<lambda>x. x / c) v)) = sum_list (map (\<lambda>x. x * x) v) / (c * c :: real)"
  by (induction v) (simp_all add: add_divide_distrib)

lemma norm2_scaled:
  assumes "0 < c"
  shows "norm2 (map (\<lambda>x. x / c) v) = norm2 v / c"
proof -
  have "sqrt (sum_list (map (\<lambda>x. x * x) v) / (c * c)) = sqrt (sum_list (map (\<lambda>x. x * x) v)) / c"
    using assms by (simp add: real_sqrt_divide)
  then show ?thesis
    unfolding norm2_def sum_list_scaled_squares .
qed

lemma normalize_descriptor_unit_norm:
  assumes "float_tolerance \<le> norm2 v"
  shows "norm2 (normalize_descriptor v) = 1"
proof -
  have tol: "0 < float_tolerance" by (simp add: float_tolerance_def)
  have d: "normalization_denominator v = norm2 v"
    using assms by (simp add: normalization_denominator_def)
  have "0 < norm2 v" using assms tol by simp
  then show ?thesis
    unfolding normalize_descriptor_def d by (simp add: norm2_scaled)
qed

lemma map_err_list_all2:
  "map_err f xs = Inr ys \<Longrightarrow> list_all2 (\<lambda>x y. f x = Inr y) xs ys"
  by (induction xs arbitrary: ys) (auto split: sum.splits)

text \<open>
  Claim C7. Whenever \<open>generateDescriptors\<close> returns (with the default window width 4
  and 8 orientation bins), it returns one descriptor for each keypoint, in order; each
  has 128 components, all of them in \<open>[0, 255]\<close>; and it is the quantisation of the
  clipped and normalised histogram of the keypoint, where the normalised vector has
  Euclidean norm 1 unless the norm of the clipped vector, which is the vector line 573
  normalises, is below \<open>float_tolerance\<close>. (Over the reals, where the norm is exactly 1.)
\<close>

theorem generateDescriptors_bounds_and_unit_norm:
  assumes "generateDescriptors keypoints gaussian_images 4 8 scale_multiplier descriptor_max_value
             = Inr descriptors"
  shows "list_all2
           (\<lambda>keypoint descriptor.
              length descriptor = 128 \<and>
              list_all (\<lambda>x. 0 \<le> x \<and> x \<le> 255) descriptor \<and>
              (\<exists>histogram_tensor.
                 descriptor_histogram keypoint gaussian_images 4 8 scale_multiplier
                   = Inr histogram_tensor \<and>
                 descriptor =
                   quantize_descriptor
                     (normalize_descriptor
                        (clip_descriptor descriptor_max_value (strip_and_flatten histogram_tensor))) \<and>
                 (float_tolerance
                    \<le> norm2 (clip_descriptor descriptor_max_value (strip_and_flatten histogram_tensor))
                  \<longrightarrow> norm2 (normalize_descriptor
                               (clip_descriptor descriptor_max_value
                                  (strip_and_flatten histogram_tensor))) = 1)))
           keypoints descriptors"
proof -
  have "list_all2
          (\<lambda>keypoint descriptor.
             bind_err (descriptor_histogram keypoint gaussian_images 4 8 scale_multiplier)
               (\<lambda>histogram_tensor. Inr (finish_descriptor descriptor_max_value histogram_tensor))
             = Inr descriptor)
          keypoints descriptors"
    using assms unfolding generateDescriptors_def by (rule map_err_list_all2)
  then show ?thesis
  proof (rule list_all2_mono)
    fix keypoint descriptor
    assume "bind_err (descriptor_histogram keypoint gaussian_images 4 8 scale_multiplier)
               (\<lambda>histogram_tensor. Inr (finish_descriptor descriptor_max_value histogram_tensor))
             = Inr descriptor"
    then obtain t where t: "descriptor_histogram keypoint gaussian_images 4 8 scale_multiplier = Inr t"
      and d: "descriptor = finish_descriptor descriptor_max_value t"
      by (auto simp add: bind_err_def split: sum.splits)
    have "length descriptor = 128"
      using descriptor_histogram_dims [OF t]
      by (simp add: d finish_descriptor_length strip_and_flatten_length)
    moreover have "list_all (\<lambda>x. 0 \<le> x \<and> x \<le> 255) descriptor"
      unfolding d finish_descriptor_def by (rule quantize_descriptor_range)
    ultimately show "length descriptor = 128 \<and>
              list_all (\<lambda>x. 0 \<le> x \<and> x \<le> 255) descriptor \<and>
              (\<exists>histogram_tensor.
                 descriptor_histogram keypoint gaussian_images 4 8 scale_multiplier
                   = Inr histogram_tensor \<and>
                 descriptor =
                   quantize_descriptor
                     (normalize_descriptor
                        (clip_descriptor descriptor_max_value (strip_and_flatten histogram_tensor))) \<and>
                 (float_tolerance
                    \<le> norm2 (clip_descriptor descriptor_max_value (strip_and_flatten histogram_tensor))
                  \<longrightarrow> norm2 (normalize_descriptor
                               (clip_descriptor descriptor_max_value
                                  (strip_and_flatten histogram_tensor))) = 1))"
      using t d by (auto simp add: finish_descriptor_def normalize_descriptor_unit_norm)
  qed
qed

lemma unpack_step: "unpackOctave step_keypoint = (- 1, 0, 2)"
  by (simp add: unpackOctave_def step_keypoint_def KeyPoint_def Let_def)

lemma shape_step_image: "shape step_image = (3, 3)"
  by (simp add: shape_def step_image_def)

lemma get_step_image: "get2 [[step_image]] (- 1 + 1) 0 = Inr step_image"
  by (simp add: get2_def py_get_def py_index_def)

lemma trig_360: "cos (deg2rad 360) = 1" "sin (deg2rad 360) = 0"
  by (simp_all add: deg2rad_def)

lemma sqrt2_lt2: "sqrt 2 < 2"
  by (rule real_less_lsqrt) simp_all

lemma np_round_sqrt2: "np_round (3 / 40 * sqrt 2) = 0"
proof (rule np_round_between)
  have nonneg: "0 \<le> 3 / 40 * sqrt 2" by simp
  have small: "3 / 40 * sqrt 2 < 3 / 40 * 2" using sqrt2_lt2 by simp
  show "real_of_int 0 - 1 / 2 < 3 / 40 * sqrt 2" using nonneg by linarith
  show "3 / 40 * sqrt 2 < real_of_int 0 + 1 / 2" using small by linarith
qed

lemma step_sample:
  "descriptor_sample step_image (1, 1) 360 1 0 (3 / 100) wm 45 4 0 0 []
     = Inr [(3 / 2, 3 / 2, 1, - 8)]"
proof -
  have "arctan2 0 1 = 0" by (simp add: arctan2_def)
  then show ?thesis
    by (simp add: descriptor_sample_def shape_step_image bind_err_def Let_def rad2deg_def
        float_mod_def)
       (simp add: step_image_def get2_def py_get_def py_index_def float_mod_def rad2deg_def)
qed


lemma list_update_Cons_numeral:
  "(x # xs)[numeral k := y] = x # xs[pred_numeral k := y]"
  by (simp add: numeral_eq_Suc)

lemma zero_tensor_literal:
  "replicate 6 (replicate 6 (replicate 8 (0::real))) =
     [zero_plane, zero_plane, zero_plane, zero_plane, zero_plane, zero_plane]"
  by (simp add: zero_plane_def zero_row_def numeral_eq_Suc)

lemma step_splat:
  "splat 8 (3 / 2, 3 / 2, 1, - 8)
     [zero_plane, zero_plane, zero_plane, zero_plane, zero_plane, zero_plane] = Inr step_tensor"
  by (simp add: splat_def add3_def bind_err_def py_index_def Let_def list_update_Cons_numeral
      step_tensor_def hit_plane_def zero_plane_def hit_row_def zero_row_def)

lemma step_histogram:
  "descriptor_histogram step_keypoint [[step_image]] 4 8 3 = Inr step_tensor"
proof -
  have fields: "pt step_keypoint = (1 / 2, 1 / 2)" "size_kp step_keypoint = 1 / 100"
    "angle step_keypoint = 0"
    by (simp_all add: step_keypoint_def)
  have r0: "np_round (3 * sqrt 2 / 40) = 0" using np_round_sqrt2 by simp
  have half: "min 0 (sqrt 18) = (0::real)" by (simp add: min_def)
  have rng: "py_range 0 1 = [0]" by (simp add: py_range_def)
  show ?thesis
    unfolding descriptor_histogram_def unpack_step
    by (simp only: prod.case get_step_image bind_err_Inr Let_def shape_step_image fst_conv
        snd_conv fields)
       (simp add: np_round_1 trig_360 r0 half rng step_sample bind_err_Inr
        zero_tensor_literal step_splat)
qed


lemma step_flatten: "strip_and_flatten step_tensor = step_vector"
  by (simp add: strip_and_flatten_def py_slice_def slice_bound_def step_tensor_def
      hit_plane_def zero_plane_def hit_row_def zero_row_def step_vector_def numeral_eq_Suc)

lemma sqrt_quarter: "sqrt (1 / 4) = 1 / 2"
  by (rule real_sqrt_unique) (simp_all add: power2_eq_square)

lemma sqrt_25th: "sqrt (1 / 25) = 1 / 5"
  by (rule real_sqrt_unique) (simp_all add: power2_eq_square)

lemma step_norm: "norm2 step_vector = 1 / 2"
  by (simp add: norm2_def step_vector_def sum_list_replicate sqrt_quarter)

lemma step_clip:
  "clip_descriptor (1 / 5) step_vector =
     replicate 40 0 @ [1 / 10] @ replicate 7 0 @ [1 / 10] @ replicate 23 0 @ [1 / 10] @
     replicate 7 0 @ [1 / 10] @ replicate 47 0"
  by (simp add: clip_descriptor_def step_norm Let_def) (simp add: step_vector_def)

lemma step_clip_norm: "norm2 (clip_descriptor (1 / 5) step_vector) = 1 / 5"
  by (simp add: step_clip norm2_def sum_list_replicate sqrt_25th)

lemma step_normalize:
  "normalize_descriptor (clip_descriptor (1 / 5) step_vector) =
     replicate 40 0 @ [1 / 2] @ replicate 7 0 @ [1 / 2] @ replicate 23 0 @ [1 / 2] @
     replicate 7 0 @ [1 / 2] @ replicate 47 0"
  by (simp add: normalize_descriptor_def normalization_denominator_def step_clip_norm
      float_tolerance_def) (simp add: step_clip)

lemma np_round_256: "np_round 256 = 256"
  using np_round_of_int [of 256] by simp

lemma step_quantize:
  "quantize_descriptor (normalize_descriptor (clip_descriptor (1 / 5) step_vector)) = step_descriptor"
  by (simp add: step_normalize quantize_descriptor_def np_round_0 np_round_256 Let_def
      step_descriptor_def)

lemma step_descriptors:
  "generateDescriptors [step_keypoint] [[step_image]] 4 8 3 0.2 = Inr [step_descriptor]"
  by (simp add: generateDescriptors_def step_histogram bind_err_Inr finish_descriptor_def
      step_flatten step_quantize)

theorem generateDescriptors_bounds_and_unit_norm_witness:
  "generateDescriptors [step_keypoint] [[step_image]] 4 8 3 0.2 = Inr [step_descriptor]
   \<and> length step_descriptor = 128
   \<and> list_all (\<lambda>x. 0 \<le> x \<and> x \<le> 255) step_descriptor
   \<and> float_tolerance \<le> norm2 (clip_descriptor 0.2 (strip_and_flatten step_tensor))
   \<and> norm2 (normalize_descriptor (clip_descriptor 0.2 (strip_and_flatten step_tensor))) = 1"
proof -
  have tol: "float_tolerance \<le> norm2 (clip_descriptor 0.2 (strip_and_flatten step_tensor))"
    by (simp add: step_flatten step_clip_norm float_tolerance_def)
  from generateDescriptors_bounds_and_unit_norm [OF step_descriptors] tol step_descriptors show ?thesis
    by (simp add: step_histogram)
qed

end
